theory Spec2Isabelle
  imports
    Main
    "HOL-Library.Sublist"
    "HOL-Library.AList"
    "HOL-Library.Char_ord"
    "HOL-Library.List_Lexorder"
    "HOL-Library.Product_Lexorder"
    "HOL-Library.Word"
begin

section \<open>Python string operations used by wrapper.py\<close>

text \<open>
  A Python \<open>str\<close> is modelled as a HOL \<open>string\<close>: a list of characters with code points
  0 to 255.  Text that went through a UTF-8 codec (file contents read in text mode, the
  decoded output of a process) is modelled by the decoded text; the only place where the
  bytes themselves matter is the digest, which uses \<open>utf8\<close> below.
\<close>

text \<open>\<open>s.startswith(p)\<close>\<close>

definition startswith :: "string \<Rightarrow> string \<Rightarrow> bool" where
  "startswith s p = prefix p s"

text \<open>\<open>c.isspace()\<close> for the code points below 256.\<close>

definition isspace :: "char \<Rightarrow> bool" where
  "isspace c = (of_char c \<in> set [9, 10, 11, 12, 13, 28, 29, 30, 31, 32, 133, 160 :: nat])"

text \<open>\<open>s.strip()\<close>\<close>

definition strip :: "string \<Rightarrow> string" where
  "strip s = rev (dropWhile isspace (rev (dropWhile isspace s)))"

text \<open>\<open>s.split(sep)\<close> for a separator of one character: at least one field, empty ones kept.\<close>

fun split_on :: "char \<Rightarrow> string \<Rightarrow> string list" where
  "split_on sep [] = [[]]"
| "split_on sep (c # cs) =
     (if c = sep then [] # split_on sep cs
      else (case split_on sep cs of
              [] \<Rightarrow> [[c]]
            | field # fields \<Rightarrow> (c # field) # fields))"

text \<open>\<open>s.split()\<close>: fields between runs of whitespace, no empty field.\<close>

fun split_ws_from :: "string \<Rightarrow> string \<Rightarrow> string list" where
  "split_ws_from cur [] = (if cur = [] then [] else [cur])"
| "split_ws_from cur (c # cs) =
     (if isspace c then (if cur = [] then split_ws_from [] cs else cur # split_ws_from [] cs)
      else split_ws_from (cur @ [c]) cs)"

definition split_ws :: "string \<Rightarrow> string list" where
  "split_ws s = split_ws_from [] s"

text \<open>\<open>sep.join(parts)\<close>\<close>

fun join :: "string \<Rightarrow> string list \<Rightarrow> string" where
  "join sep [] = []"
| "join sep [p] = p"
| "join sep (p # q # ps) = p @ sep @ join sep (q # ps)"

text \<open>\<open>s.replace(old, new)\<close> for a non-empty \<open>old\<close>: every occurrence, left to right.\<close>

function py_replace :: "string \<Rightarrow> string \<Rightarrow> string \<Rightarrow> string" where
  "py_replace old new [] = []"
| "py_replace old new (c # cs) =
     (if old \<noteq> [] \<and> prefix old (c # cs)
      then new @ py_replace old new (drop (length old) (c # cs))
      else c # py_replace old new cs)"
  by pat_completeness auto
termination
  by (relation "measure (\<lambda>(old, new, s). length s)") (auto simp: prefix_def)

text \<open>\<open>str(n)\<close> for an integer.\<close>

fun str_nat :: "nat \<Rightarrow> string" where
  "str_nat n =
     (if n < 10 then [char_of (48 + n)]
      else str_nat (n div 10) @ [char_of (48 + n mod 10)])"

definition str_int :: "int \<Rightarrow> string" where
  "str_int i = (if i < 0 then CHR ''-'' # str_nat (nat (- i)) else str_nat (nat i))"

text \<open>\<open>sub in s\<close>\<close>

definition py_in :: "string \<Rightarrow> string \<Rightarrow> bool" where
  "py_in sub s = sublist sub s"

text \<open>
  \<open>re.match('\d+\.\d+\.\d+', s) is not None\<close>: a run of digits, a dot, a run of digits,
  a dot and a digit, at the start of \<open>s\<close>.
\<close>

definition isdigit :: "char \<Rightarrow> bool" where
  "isdigit c = (48 \<le> (of_char c :: nat) \<and> (of_char c :: nat) \<le> 57)"

definition digits_then_dot :: "string \<Rightarrow> string option" where
  "digits_then_dot s =
     (if takeWhile isdigit s = [] then None
      else (case dropWhile isdigit s of
              [] \<Rightarrow> None
            | c # rest \<Rightarrow> if c = CHR ''.'' then Some rest else None))"

definition version_match :: "string \<Rightarrow> bool" where
  "version_match s =
     (case digits_then_dot s of
        None \<Rightarrow> False
      | Some s1 \<Rightarrow>
          (case digits_then_dot s1 of
             None \<Rightarrow> False
           | Some s2 \<Rightarrow> (case s2 of [] \<Rightarrow> False | c # _ \<Rightarrow> isdigit c)))"

text \<open>\<open>s.encode('utf-8')\<close>: one byte below 128, two bytes from 128 to 255.\<close>

definition utf8_char :: "char \<Rightarrow> string" where
  "utf8_char c =
     (if (of_char c :: nat) < 128 then [c]
      else [char_of (192 + (of_char c :: nat) div 64), char_of (128 + (of_char c :: nat) mod 64)])"

definition utf8 :: "string \<Rightarrow> string" where
  "utf8 s = concat (map utf8_char s)"

section \<open>SHA-256, as \<open>hashlib.sha256\<close> computes it (FIPS 180-4)\<close>

unbundle bit_operations_syntax

text \<open>
  The round constants and the initial hash value (in decimal), the six logical functions,
  the message schedule (kept newest word first), the compression of one block, the
  padding, and the digest in lower-case hexadecimal.  Bytes are integers from 0 to 255.
\<close>

definition sha_K :: "32 word list" where
  "sha_K = [
   1116352408, 1899447441, 3049323471, 3921009573, 961987163, 1508970993, 2453635748, 2870763221,
   3624381080, 310598401, 607225278, 1426881987, 1925078388, 2162078206, 2614888103, 3248222580,
   3835390401, 4022224774, 264347078, 604807628, 770255983, 1249150122, 1555081692, 1996064986,
   2554220882, 2821834349, 2952996808, 3210313671, 3336571891, 3584528711, 113926993, 338241895,
   666307205, 773529912, 1294757372, 1396182291, 1695183700, 1986661051, 2177026350, 2456956037,
   2730485921, 2820302411, 3259730800, 3345764771, 3516065817, 3600352804, 4094571909, 275423344,
   430227734, 506948616, 659060556, 883997877, 958139571, 1322822218, 1537002063, 1747873779,
   1955562222, 2024104815, 2227730452, 2361852424, 2428436474, 2756734187, 3204031479, 3329325298]"

definition sha_H0 :: "32 word list" where
  "sha_H0 =
     [1779033703, 3144134277, 1013904242, 2773480762,
      1359893119, 2600822924, 528734635, 1541459225]"

definition sha_ch :: "32 word \<Rightarrow> 32 word \<Rightarrow> 32 word \<Rightarrow> 32 word" where
  "sha_ch x y z = (x AND y) XOR (NOT x AND z)"

definition sha_maj :: "32 word \<Rightarrow> 32 word \<Rightarrow> 32 word \<Rightarrow> 32 word" where
  "sha_maj x y z = (x AND y) XOR (x AND z) XOR (y AND z)"

definition sha_bsig0 :: "32 word \<Rightarrow> 32 word" where
  "sha_bsig0 x = word_rotr 2 x XOR word_rotr 13 x XOR word_rotr 22 x"

definition sha_bsig1 :: "32 word \<Rightarrow> 32 word" where
  "sha_bsig1 x = word_rotr 6 x XOR word_rotr 11 x XOR word_rotr 25 x"

definition sha_ssig0 :: "32 word \<Rightarrow> 32 word" where
  "sha_ssig0 x = word_rotr 7 x XOR word_rotr 18 x XOR drop_bit 3 x"

definition sha_ssig1 :: "32 word \<Rightarrow> 32 word" where
  "sha_ssig1 x = word_rotr 17 x XOR word_rotr 19 x XOR drop_bit 10 x"

fun sha_schedule :: "nat \<Rightarrow> 32 word list \<Rightarrow> 32 word list" where
  "sha_schedule 0 ws = ws"
| "sha_schedule (Suc n) ws =
     sha_schedule n ((sha_ssig1 (ws ! 1) + ws ! 6 + sha_ssig0 (ws ! 14) + ws ! 15) # ws)"

fun sha_round :: "32 word list \<Rightarrow> (32 word \<times> 32 word) \<Rightarrow> 32 word list" where
  "sha_round [a, b, c, d, e, f, g, h] (k, w) =
     (let t1 = h + sha_bsig1 e + sha_ch e f g + k + w;
          t2 = sha_bsig0 a + sha_maj a b c
      in [t1 + t2, a, b, c, d + t1, e, f, g])"
| "sha_round st _ = st"

definition sha_compress :: "32 word list \<Rightarrow> 32 word list \<Rightarrow> 32 word list" where
  "sha_compress hs block =
     map2 (+) hs (foldl sha_round hs (zip sha_K (rev (sha_schedule 48 (rev block)))))"

fun be_words :: "int list \<Rightarrow> 32 word list" where
  "be_words (a # b # c # d # rest) = word_of_int (((a * 256 + b) * 256 + c) * 256 + d) # be_words rest"
| "be_words _ = []"

fun be_bytes :: "nat \<Rightarrow> int \<Rightarrow> int list" where
  "be_bytes 0 n = []"
| "be_bytes (Suc k) n = be_bytes k (n div 256) @ [n mod 256]"

definition sha_pad :: "int list \<Rightarrow> int list" where
  "sha_pad bs =
     bs @ [128] @ replicate (nat ((119 - int (length bs) mod 64) mod 64)) 0 @
     be_bytes 8 (8 * int (length bs))"

fun sha_blocks :: "nat \<Rightarrow> 32 word list \<Rightarrow> 32 word list list" where
  "sha_blocks 0 ws = []"
| "sha_blocks (Suc n) ws = take 16 ws # sha_blocks n (drop 16 ws)"

definition hexdigit :: "int \<Rightarrow> char" where
  "hexdigit n = ''0123456789abcdef'' ! nat n"

definition hex_byte :: "int \<Rightarrow> string" where
  "hex_byte n = [hexdigit (n div 16), hexdigit (n mod 16)]"

definition sha256_hex :: "string \<Rightarrow> string" where
  "sha256_hex s =
     (let ws = be_words (sha_pad (map of_char s));
          hs = foldl sha_compress sha_H0 (sha_blocks (length ws div 16) ws)
      in concat (map (\<lambda>h. concat (map hex_byte (be_bytes 4 (uint h)))) hs))"

section \<open>The world outside the program\<close>

text \<open>
  The directory \<open>TMP_DIR\<close> is a listing of names, in the order \<open>iterdir\<close> yields them,
  or \<open>None\<close> when the directory does not exist.  Everything else on disk is \<open>outside\<close>,
  keyed by path; the paths named by \<open>PATH\<close> and by the resolution file are looked up
  there.  A subdirectory is an opaque entry.  Modification times and the clock
  (\<open>time.time()\<close>) are whole seconds; the statements of the program itself take no time,
  a process may.
\<close>

datatype node = File (content: string) (mtime: int) | Dir

datatype event = Spawned "string list" | Probed string

record world =
  tmp_dir :: "(string \<times> node) list option"
  outside :: "(string \<times> node) list"
  clock :: int
  trace :: "event list"

text \<open>
  What running a process gives: the launch fails (\<open>OSError\<close>), or the process ends with a
  return code (negative: ended by that signal), its standard output and its standard error,
  each as the text that \<open>read_output\<close> makes of the stream.
\<close>

datatype outcome = LaunchFailure | Exited int string string

datatype os_error =
    FileNotFound string
  | IsADirectory string
  | PermissionDenied string
  | LaunchFailed "string list"

datatype error =
    KatexError string
  | OSError os_error
  | KeyError int
  | IndexError
  | NotImplementedError string

text \<open>
  The platform: the temporary directory of \<open>tempfile.gettempdir()\<close>, \<open>os.environ['PATH']\<close>,
  \<open>os.pathsep\<close>, \<open>platform.system()\<close>, \<open>platform.machine()\<close>, the integer-valued entries of
  \<open>signal.__dict__\<close>, the paths \<open>PKG_BIN_DIR.glob\<close> finds for a pattern, what a command
  line does when it is run (its outcome and what it leaves on disk), and the names in
  \<open>TMP_DIR\<close> whose removal the operating system refuses.
\<close>

record env =
  gettempdir :: string
  environ_PATH :: "string option"
  pathsep :: char
  OSNAME :: string
  MACHINE :: string
  signal_dict :: "(string \<times> int) list"
  glob_pkg_bin :: "string \<Rightarrow> string list"
  run_process :: "string list \<Rightarrow> world \<Rightarrow> outcome \<times> world"
  unlink_denied :: "string \<Rightarrow> bool"

text \<open>\<open>str(directory / name)\<close> for paths in normal form.\<close>

definition path_join :: "string \<Rightarrow> string \<Rightarrow> string" where
  "path_join d name =
     (if d = [] then name
      else if last d = CHR ''/'' then d @ name
      else d @ ''/'' @ name)"

definition TMP_DIR :: "env \<Rightarrow> string" where
  "TMP_DIR e = path_join (gettempdir e) ''mdkatex''"

definition FALLBACK_BIN_DIR :: string where
  "FALLBACK_BIN_DIR = ''/usr/local/bin''"

definition CMD_NAME :: string where
  "CMD_NAME = ''katex''"

text \<open>The name of \<open>TMP_LOCAL_CMD_CACHE\<close> in \<open>TMP_DIR\<close>.\<close>

definition TMP_LOCAL_CMD_CACHE :: string where
  "TMP_LOCAL_CMD_CACHE = ''local_katex_cmd.txt''"

subsection \<open>Files of \<open>TMP_DIR\<close>\<close>

definition tmp_lookup :: "world \<Rightarrow> string \<Rightarrow> node option" where
  "tmp_lookup w name = (case tmp_dir w of None \<Rightarrow> None | Some es \<Rightarrow> map_of es name)"

text \<open>\<open>TMP_DIR.mkdir(parents=True, exist_ok=True)\<close>\<close>

definition tmp_mkdir :: "world \<Rightarrow> world" where
  "tmp_mkdir w = (case tmp_dir w of None \<Rightarrow> w\<lparr>tmp_dir := Some []\<rparr> | Some es \<Rightarrow> w)"

text \<open>Opening \<open>TMP_DIR / name\<close> for writing and writing \<open>data\<close>.\<close>

definition tmp_write :: "string \<Rightarrow> string \<Rightarrow> world \<Rightarrow> (error + unit) \<times> world" where
  "tmp_write name data w =
     (case tmp_dir w of
        None \<Rightarrow> (Inl (OSError (FileNotFound name)), w)
      | Some es \<Rightarrow>
          (case map_of es name of
             Some Dir \<Rightarrow> (Inl (OSError (IsADirectory name)), w)
           | _ \<Rightarrow> (Inr (), w\<lparr>tmp_dir := Some (AList.update name (File data (clock w)) es)\<rparr>)))"

text \<open>\<open>(TMP_DIR / name).touch()\<close>\<close>

definition tmp_touch :: "string \<Rightarrow> world \<Rightarrow> (error + unit) \<times> world" where
  "tmp_touch name w =
     (case tmp_dir w of
        None \<Rightarrow> (Inl (OSError (FileNotFound name)), w)
      | Some es \<Rightarrow>
          (case map_of es name of
             None \<Rightarrow> (Inr (), w\<lparr>tmp_dir := Some (AList.update name (File [] (clock w)) es)\<rparr>)
           | Some Dir \<Rightarrow> (Inr (), w)
           | Some (File c m) \<Rightarrow>
               (Inr (), w\<lparr>tmp_dir := Some (AList.update name (File c (clock w)) es)\<rparr>)))"

text \<open>Opening \<open>TMP_DIR / name\<close> for reading and reading all of it.\<close>

definition tmp_read :: "string \<Rightarrow> world \<Rightarrow> error + string" where
  "tmp_read name w =
     (case tmp_lookup w name of
        None \<Rightarrow> Inl (OSError (FileNotFound name))
      | Some Dir \<Rightarrow> Inl (OSError (IsADirectory name))
      | Some (File c m) \<Rightarrow> Inr c)"

text \<open>\<open>(TMP_DIR / name).unlink()\<close>\<close>

definition tmp_unlink :: "env \<Rightarrow> string \<Rightarrow> world \<Rightarrow> (error + unit) \<times> world" where
  "tmp_unlink e name w =
     (case tmp_dir w of
        None \<Rightarrow> (Inl (OSError (FileNotFound name)), w)
      | Some es \<Rightarrow>
          (case map_of es name of
             None \<Rightarrow> (Inl (OSError (FileNotFound name)), w)
           | Some Dir \<Rightarrow> (Inl (OSError (IsADirectory name)), w)
           | Some (File c m) \<Rightarrow>
               if unlink_denied e name then (Inl (OSError (PermissionDenied name)), w)
               else (Inr (), w\<lparr>tmp_dir := Some (AList.delete name es)\<rparr>)))"

subsection \<open>Paths outside \<open>TMP_DIR\<close>\<close>

definition path_exists :: "world \<Rightarrow> string \<Rightarrow> bool" where
  "path_exists w p = (case map_of (outside w) p of None \<Rightarrow> False | Some nd \<Rightarrow> True)"

definition is_file :: "world \<Rightarrow> string \<Rightarrow> bool" where
  "is_file w p = (case map_of (outside w) p of Some (File c m) \<Rightarrow> True | _ \<Rightarrow> False)"

subsection \<open>Processes\<close>

text \<open>Running a command line: the platform says what happens, the trace records the call.\<close>

definition spawn :: "env \<Rightarrow> string list \<Rightarrow> world \<Rightarrow> outcome \<times> world" where
  "spawn e argv w =
     (case run_process e argv w of
        (oc, w') \<Rightarrow> (oc, w'\<lparr>trace := trace w @ [Spawned argv]\<rparr>))"



section \<open>wrapper.py\<close>

text \<open>
  The functions of the module, under their names without the leading underscore.  A
  function that reads or changes the disk, reads the clock or runs a process takes the
  world and returns the new one with its result; an exception is the \<open>Inl\<close> of the result.
\<close>

subsection \<open>\<open>SIG_NAME_BY_NUM\<close>\<close>

text \<open>
  The dictionary comprehension over \<open>sorted(signal.__dict__.items(), reverse=True)\<close>: the
  items (name, number) in descending order, those whose name starts with \<open>SIG\<close> and not
  with \<open>SIG_\<close> entered as number \<open>\<mapsto>\<close> name, a later item replacing an earlier one with the
  same number.
\<close>

definition SIG_NAME_BY_NUM :: "env \<Rightarrow> (int \<times> string) list" where
  "SIG_NAME_BY_NUM e =
     fold (\<lambda>(v, k) d. AList.update k v d)
       (filter (\<lambda>(v, k). startswith v ''SIG'' \<and> \<not> startswith v ''SIG_'')
          (rev (sort (signal_dict e))))
       []"

text \<open>The module asserts \<open>SIG_NAME_BY_NUM[15] == 'SIGTERM'\<close> when it is loaded.\<close>

definition module_loads :: "env \<Rightarrow> bool" where
  "module_loads e = (map_of (SIG_NAME_BY_NUM e) 15 = Some ''SIGTERM'')"

subsection \<open>Resolving the binary\<close>

definition get_env_paths :: "env \<Rightarrow> string list" where
  "get_env_paths e =
     (case environ_PATH e of
        None \<Rightarrow> []
      | Some env_path \<Rightarrow> if env_path = [] then [] else split_on (pathsep e) env_path) @
     (case environ_PATH e of
        None \<Rightarrow> [FALLBACK_BIN_DIR]
      | Some env_path \<Rightarrow> if py_in FALLBACK_BIN_DIR env_path then [] else [FALLBACK_BIN_DIR])"

definition get_local_bin_candidates :: "env \<Rightarrow> string list" where
  "get_local_bin_candidates e =
     (if OSNAME e = ''Windows''
      then [CMD_NAME @ ''.cmd'', CMD_NAME @ ''.exe'',
            ''npx.cmd --no-install '' @ CMD_NAME, ''npx.exe --no-install '' @ CMD_NAME,
            CMD_NAME @ ''.ps1'', ''npx.ps1 --no-install '' @ CMD_NAME]
      else [CMD_NAME, ''npx --no-install '' @ CMD_NAME])"

text \<open>
  The inner loop of \<open>_get_usr_parts\<close> over the candidates of one directory.  \<open>Inr None\<close>: no
  candidate of this directory was accepted.  The output of \<open>check_output\<close> with
  \<open>stderr=STDOUT\<close> is taken to be the standard output followed by the standard error.
\<close>

fun try_candidates ::
  "env \<Rightarrow> string \<Rightarrow> string list \<Rightarrow> world \<Rightarrow> (error + string list option) \<times> world" where
  "try_candidates e path [] w = (Inr None, w)"
| "try_candidates e path (local_cmd # rest) w =
     (case split_ws local_cmd of
        [] \<Rightarrow> (Inl IndexError, w)
      | bin_name # args \<Rightarrow>
          (let local_bin = path_join path bin_name;
               w1 = w\<lparr>trace := trace w @ [Probed local_bin]\<rparr>
           in if \<not> is_file w1 local_bin then try_candidates e path rest w1
              else
                (let local_cmd_parts = local_bin # args
                 in case spawn e (local_cmd_parts @ [''--version'']) w1 of
                      (LaunchFailure, w2) \<Rightarrow> try_candidates e path rest w2
                    | (Exited ret_code out err, w2) \<Rightarrow>
                        if ret_code \<noteq> 0 then try_candidates e path rest w2
                        else if \<not> version_match (strip (out @ err))
                        then try_candidates e path rest w2
                        else
                          (case tmp_write TMP_LOCAL_CMD_CACHE
                                  (join [CHR 0x0A] local_cmd_parts) (tmp_mkdir w2) of
                             (Inl er, w3) \<Rightarrow> (Inl er, w3)
                           | (Inr u, w3) \<Rightarrow> (Inr (Some local_cmd_parts), w3)))))"

text \<open>The outer loop over the directories of \<open>_get_env_paths()\<close>.\<close>

fun search_paths ::
  "env \<Rightarrow> string list \<Rightarrow> world \<Rightarrow> (error + string list option) \<times> world" where
  "search_paths e [] w = (Inr None, w)"
| "search_paths e (path # paths) w =
     (case try_candidates e path (get_local_bin_candidates e) w of
        (Inr None, w') \<Rightarrow> search_paths e paths w'
      | (Inr (Some local_cmd_parts), w') \<Rightarrow> (Inr (Some local_cmd_parts), w')
      | (Inl er, w') \<Rightarrow> (Inl er, w'))"

definition get_usr_parts :: "env \<Rightarrow> world \<Rightarrow> (error + string list option) \<times> world" where
  "get_usr_parts e w =
     (case tmp_lookup w TMP_LOCAL_CMD_CACHE of
        None \<Rightarrow> search_paths e (get_env_paths e) w
      | Some Dir \<Rightarrow> (Inl (OSError (IsADirectory TMP_LOCAL_CMD_CACHE)), w)
      | Some (File local_cmd m) \<Rightarrow>
          (case split_on (CHR 0x0A) local_cmd of
             [] \<Rightarrow> (Inl IndexError, w)
           | first # others \<Rightarrow>
               if path_exists w first then (Inr (Some (first # others)), w)
               else search_paths e (get_env_paths e) w))"

text \<open>
  \<open>max(bin_files)\<close> is taken in the order of the path strings.
\<close>

definition get_pkg_bin_path :: "env \<Rightarrow> error + string" where
  "get_pkg_bin_path e =
     (let machine = (if MACHINE e = ''AMD64'' then ''x86_64'' else MACHINE e);
          glob_expr = ''*_'' @ machine @ ''-'' @ OSNAME e @ ''*''
      in case glob_pkg_bin e glob_expr of
           [] \<Rightarrow> Inl (NotImplementedError
                  (''Platform not supported, katex binary not found. '' @
                   ''Install manually using '' @ [CHR 0x27] @ ''npm install katex'' @ [CHR 0x27] @ ''.''))
         | f # fs \<Rightarrow> Inr (fold max fs f))"

definition get_bin_cmd :: "env \<Rightarrow> world \<Rightarrow> (error + string list) \<times> world" where
  "get_bin_cmd e w =
     (case get_usr_parts e w of
        (Inl er, w') \<Rightarrow> (Inl er, w')
      | (Inr None, w') \<Rightarrow>
          (case get_pkg_bin_path e of
             Inl er \<Rightarrow> (Inl er, w')
           | Inr p \<Rightarrow> (Inr [p], w'))
      | (Inr (Some usr_bin_cmd), w') \<Rightarrow> (Inr usr_bin_cmd, w'))"

subsection \<open>Building the command line\<close>

text \<open>
  \<open>ArgValue = Union[str, int, float, bool]\<close>.  The program only ever takes \<open>str()\<close> of a
  float, so a float is carried as that text.
\<close>

datatype arg_value = StrV string | IntV int | FloatV string | BoolV bool

definition str_value :: "arg_value \<Rightarrow> string" where
  "str_value v =
     (case v of
        StrV s \<Rightarrow> s
      | IntV i \<Rightarrow> str_int i
      | FloatV s \<Rightarrow> s
      | BoolV b \<Rightarrow> (if b then ''True'' else ''False''))"

text \<open>The loop of \<open>_iter_cmd_parts\<close> over \<open>options.items()\<close>, with what it yields.\<close>

fun iter_options :: "(string \<times> arg_value) list \<Rightarrow> string list" where
  "iter_options [] = []"
| "iter_options ((option_name, option_value) # rest) =
     (let arg_name = (if startswith option_name ''--'' then option_name
                      else ''--'' @ option_name)
      in if option_value = BoolV True then arg_name # iter_options rest
         else if option_value = BoolV False then iter_options rest
         else arg_name # str_value option_value # iter_options rest)"

text \<open>\<open>list(_iter_cmd_parts(options))\<close>; \<open>options\<close> is \<open>None\<close> or a dictionary in its order.\<close>

definition iter_cmd_parts ::
  "env \<Rightarrow> (string \<times> arg_value) list option \<Rightarrow> world \<Rightarrow> (error + string list) \<times> world" where
  "iter_cmd_parts e options w =
     (case get_bin_cmd e w of
        (Inl er, w') \<Rightarrow> (Inl er, w')
      | (Inr bin_cmd, w') \<Rightarrow>
          (Inr (bin_cmd @ (case options of None \<Rightarrow> [] | Some opts \<Rightarrow> iter_options opts)), w'))"

subsection \<open>The digest\<close>

text \<open>
  The hasher is the bytes it was fed: \<open>hashlib.sha256(data)\<close> starts it, \<open>update\<close> appends,
  \<open>hexdigest\<close> is the SHA-256 of all of them.
\<close>

definition cmd_digest :: "string \<Rightarrow> string list \<Rightarrow> string" where
  "cmd_digest tex cmd_parts =
     sha256_hex (fold (\<lambda>cmd_part hasher. hasher @ utf8 cmd_part) cmd_parts (utf8 tex))"

subsection \<open>Rendering\<close>

text \<open>
  \<open>_write_tex2html(cmd_parts, tex, tmp_output_file)\<close>, with the name of the output file in
  \<open>TMP_DIR\<close>.  The statements after the \<open>try\<close> block run only when nothing was raised in it.
\<close>

definition write_tex2html ::
  "env \<Rightarrow> string list \<Rightarrow> string \<Rightarrow> string \<Rightarrow> world \<Rightarrow> (error + unit) \<times> world" where
  "write_tex2html e cmd_parts tex tmp_output_name w =
     (let tmp_input_name = py_replace ''.html'' ''.tex'' tmp_output_name
      in case tmp_write tmp_input_name tex (tmp_mkdir w) of
           (Inl er, w1) \<Rightarrow> (Inl er, w1)
         | (Inr u, w1) \<Rightarrow>
             (let cmd_parts' = cmd_parts @
                    [''--input'', path_join (TMP_DIR e) tmp_input_name,
                     ''--output'', path_join (TMP_DIR e) tmp_output_name]
              in case spawn e cmd_parts' w1 of
                   (LaunchFailure, w2) \<Rightarrow> (Inl (OSError (LaunchFailed cmd_parts')), w2)
                 | (Exited ret_code out err, w2) \<Rightarrow>
                     if ret_code < 0 then
                       (case map_of (SIG_NAME_BY_NUM e) (abs ret_code) of
                          None \<Rightarrow> (Inl (KeyError (abs ret_code)), w2)
                        | Some signame \<Rightarrow>
                            (Inl (KatexError
                               (''Error processing '' @ [CHR 0x27] @ tex @ [CHR 0x27] @ '': '' @
                                ''katex_cli process ended with '' @
                                ''code '' @ str_int ret_code @ '' ('' @ signame @ '')'')), w2))
                     else if ret_code > 0 then
                       (Inl (KatexError
                          (''Error processing '' @ [CHR 0x27] @ tex @ [CHR 0x27] @ '': '' @
                           strip (out @ [CHR 0x0A] @ err))), w2)
                     else tmp_unlink e tmp_input_name w2))"

text \<open>The loop of \<open>_cleanup_tmp_dir\<close> over the names \<open>iterdir\<close> listed.\<close>

fun cleanup_loop :: "env \<Rightarrow> int \<Rightarrow> string list \<Rightarrow> world \<Rightarrow> (error + unit) \<times> world" where
  "cleanup_loop e min_mtime [] w = (Inr (), w)"
| "cleanup_loop e min_mtime (fname # rest) w =
     (case tmp_lookup w fname of
        Some (File c m) \<Rightarrow>
          if m < min_mtime then
            (case tmp_unlink e fname w of
               (Inl er, w') \<Rightarrow> (Inl er, w')
             | (Inr u, w') \<Rightarrow> cleanup_loop e min_mtime rest w')
          else cleanup_loop e min_mtime rest w
      | _ \<Rightarrow> cleanup_loop e min_mtime rest w)"

definition cleanup_tmp_dir :: "env \<Rightarrow> world \<Rightarrow> (error + unit) \<times> world" where
  "cleanup_tmp_dir e w =
     (let min_mtime = clock w - 24 * 60 * 60
      in case tmp_dir w of
           None \<Rightarrow> (Inl (OSError (FileNotFound (TMP_DIR e))), w)
         | Some es \<Rightarrow> cleanup_loop e min_mtime (map fst es) w)"

text \<open>The body of the \<open>try\<close> block of \<open>tex2html\<close>.\<close>

definition tex2html_body ::
  "env \<Rightarrow> string list \<Rightarrow> string \<Rightarrow> string \<Rightarrow> world \<Rightarrow> (error + string) \<times> world" where
  "tex2html_body e cmd_parts tex tmp_filename w =
     (case (case tmp_lookup w tmp_filename of
              Some nd \<Rightarrow> tmp_touch tmp_filename w
            | None \<Rightarrow> write_tex2html e cmd_parts tex tmp_filename w) of
        (Inl er, w1) \<Rightarrow> (Inl er, w1)
      | (Inr u, w1) \<Rightarrow>
          (case tmp_read tmp_filename w1 of
             Inl er \<Rightarrow> (Inl er, w1)
           | Inr result \<Rightarrow> (Inr (strip result), w1)))"

text \<open>\<open>tex2html(tex, options)\<close>: the \<open>finally\<close> clause runs on every way out of the body.\<close>

definition tex2html ::
  "env \<Rightarrow> string \<Rightarrow> (string \<times> arg_value) list option \<Rightarrow> world \<Rightarrow> (error + string) \<times> world" where
  "tex2html e tex options w =
     (case iter_cmd_parts e options w of
        (Inl er, w0) \<Rightarrow> (Inl er, w0)
      | (Inr cmd_parts, w0) \<Rightarrow>
          (let digest = cmd_digest tex cmd_parts;
               tmp_filename = digest @ ''.html''
           in case tex2html_body e cmd_parts tex tmp_filename w0 of
                (r, w1) \<Rightarrow>
                  (case cleanup_tmp_dir e w1 of
                     (Inl er, w2) \<Rightarrow> (Inl er, w2)
                   | (Inr u, w2) \<Rightarrow> (r, w2))))"

section \<open>The command builder in the words of its contract\<close>

text \<open>An option name not already starting with \<open>--\<close> is prefixed with it.\<close>

definition option_flag :: "string \<Rightarrow> string" where
  "option_flag name = (if prefix ''--'' name then name else ''--'' @ name)"

text \<open>
  What one option contributes: a single flag for the boolean true, nothing for the boolean
  false, the flag followed by the string form of the value otherwise.
\<close>

definition option_tokens :: "string \<times> arg_value \<Rightarrow> string list" where
  "option_tokens opt =
     (case opt of
        (name, BoolV b) \<Rightarrow> (if b then [option_flag name] else [])
      | (name, v) \<Rightarrow> [option_flag name, str_value v])"

definition build_argv :: "string list \<Rightarrow> (string \<times> arg_value) list \<Rightarrow> string list" where
  "build_argv resolved opts = resolved @ concat (map option_tokens opts)"

section \<open>The digest and the sweep in the words of their contracts\<close>

text \<open>
  The UTF-8 bytes of the text followed by the UTF-8 bytes of every token of the argument
  vector, in order.
\<close>

definition digest_input :: "string \<Rightarrow> string list \<Rightarrow> string" where
  "digest_input tex cmd_parts = utf8 tex @ concat (map utf8 cmd_parts)"

text \<open>
  A cache key made of the input text, the resolved invocation prefix and the options, and
  of nothing else.
\<close>

definition cache_key :: "string \<Rightarrow> string list \<Rightarrow> (string \<times> arg_value) list \<Rightarrow> string" where
  "cache_key tex resolved opts = sha256_hex (digest_input tex (build_argv resolved opts))"

text \<open>A regular file whose modification time is older than \<open>min_mtime\<close>.\<close>

definition older_than :: "int \<Rightarrow> node \<Rightarrow> bool" where
  "older_than min_mtime nd = (case nd of File c m \<Rightarrow> m < min_mtime | Dir \<Rightarrow> False)"

section \<open>A platform and a renderer to run the program on\<close>

text \<open>The signal numbers of Linux, as the \<open>signal\<close> module of CPython has them.\<close>

definition linux_signals :: "(string \<times> int) list" where
  "linux_signals =
     [(''ITIMER_PROF'', 2), (''ITIMER_REAL'', 0), (''ITIMER_VIRTUAL'', 1), (''NSIG'', 65),
      (''SIGABRT'', 6), (''SIGALRM'', 14), (''SIGBUS'', 7), (''SIGCHLD'', 17),
      (''SIGCLD'', 17), (''SIGCONT'', 18), (''SIGFPE'', 8), (''SIGHUP'', 1),
      (''SIGILL'', 4), (''SIGINT'', 2), (''SIGIO'', 29), (''SIGIOT'', 6),
      (''SIGKILL'', 9), (''SIGPIPE'', 13), (''SIGPOLL'', 29), (''SIGPROF'', 27),
      (''SIGPWR'', 30), (''SIGQUIT'', 3), (''SIGRTMAX'', 64), (''SIGRTMIN'', 34),
      (''SIGSEGV'', 11), (''SIGSTOP'', 19), (''SIGSYS'', 31), (''SIGTERM'', 15),
      (''SIGTRAP'', 5), (''SIGTSTP'', 20), (''SIGTTIN'', 21), (''SIGTTOU'', 22),
      (''SIGURG'', 23), (''SIGUSR1'', 10), (''SIGUSR2'', 12), (''SIGVTALRM'', 26),
      (''SIGWINCH'', 28), (''SIGXCPU'', 24), (''SIGXFSZ'', 25),
      (''SIG_BLOCK'', 0), (''SIG_DFL'', 0), (''SIG_IGN'', 1), (''SIG_SETMASK'', 2),
      (''SIG_UNBLOCK'', 1)]"

text \<open>The argument that follows a flag on a command line, and the last component of a path.\<close>

fun arg_after :: "string \<Rightarrow> string list \<Rightarrow> string option" where
  "arg_after flag [] = None"
| "arg_after flag [a] = None"
| "arg_after flag (a # b # rest) = (if a = flag then Some b else arg_after flag (b # rest))"

definition basename :: "string \<Rightarrow> string" where
  "basename p = last (split_on (CHR ''/'') p)"

text \<open>
  A renderer that answers \<open>--version\<close> with a version number and otherwise ends with
  \<open>ret_code\<close>, \<open>out\<close> and \<open>err\<close>, after writing \<open>written\<close> (when it is not \<open>None\<close>) to the
  file named after \<open>--output\<close>.  A run takes one second.
\<close>

definition stub_katex ::
  "int \<Rightarrow> string \<Rightarrow> string \<Rightarrow> string option \<Rightarrow> string list \<Rightarrow> world \<Rightarrow> outcome \<times> world" where
  "stub_katex ret_code out err written argv w =
     (if argv \<noteq> [] \<and> last argv = ''--version''
      then (Exited 0 ''0.16.9'' [], w\<lparr>clock := clock w + 1\<rparr>)
      else
        (case (written, arg_after ''--output'' argv, tmp_dir w) of
           (Some html, Some p, Some es) \<Rightarrow>
             (Exited ret_code out err,
              w\<lparr>tmp_dir := Some (AList.update (basename p) (File html (clock w + 1)) es),
                clock := clock w + 1\<rparr>)
         | _ \<Rightarrow> (Exited ret_code out err, w\<lparr>clock := clock w + 1\<rparr>)))"

definition linux_env :: env where
  "linux_env =
     \<lparr>gettempdir = ''/tmp'',
      environ_PATH = Some ''/usr/bin:/bin'',
      pathsep = CHR '':'',
      OSNAME = ''Linux'',
      MACHINE = ''x86_64'',
      signal_dict = linux_signals,
      glob_pkg_bin = (\<lambda>pat. []),
      run_process = stub_katex 0 [] [] (Some ''<span>x</span>''),
      unlink_denied = (\<lambda>name. False)\<rparr>"

text \<open>A disk with a renderer in \<open>/usr/bin\<close> and a resolution file naming it.\<close>

definition resolved_world :: world where
  "resolved_world =
     \<lparr>tmp_dir = Some [(''local_katex_cmd.txt'', File ''/usr/bin/katex'' 1000)],
      outside = [(''/usr/bin/katex'', File ''#!/usr/bin/env node'' 500)],
      clock = 2000,
      trace = []\<rparr>"

text \<open>
  The same platform with a renderer that fails as a parse error does, with one that fails
  after it has begun to write its output, with one a signal ends, and with a file in the
  temporary directory that cannot be removed.
\<close>

definition parse_error_env :: env where
  "parse_error_env = linux_env\<lparr>run_process := stub_katex 1 [] ''parse error'' None\<rparr>"

definition partial_output_env :: env where
  "partial_output_env =
     linux_env\<lparr>run_process := stub_katex 1 ''ParseError:'' ''bad input'' (Some ''<span'')\<rparr>"

definition sigterm_env :: env where
  "sigterm_env = linux_env\<lparr>run_process := stub_katex (- 15) [] [] None\<rparr>"

definition sigrt_env :: env where
  "sigrt_env = linux_env\<lparr>run_process := stub_katex (- 40) [] [] None\<rparr>"

definition locked_env :: env where
  "locked_env = linux_env\<lparr>unlink_denied := (\<lambda>name. name = ''locked.html'')\<rparr>"

text \<open>
  The options of a display block, and the digest of \<open>x^2\<close> with the command line
  \<open>/usr/bin/katex --display-mode\<close>.
\<close>

definition display_block :: "(string \<times> arg_value) list" where
  "display_block = [(''display-mode'', BoolV True)]"

definition x2_digest :: string where
  "x2_digest = ''924fd163abe4dd7c1104b27be3ba87ceb16ae069ce48c7797ab6f7ae6b49f20b''"




text \<open>
  A cache with a file one second older than the retention window, one exactly as old, one
  a second younger, and a subdirectory.
\<close>

definition aged_world :: world where
  "aged_world =
     \<lparr>tmp_dir = Some [(''old.html'', File ''<p>old</p>'' 13599),
                      (''edge.html'', File ''<p>edge</p>'' 13600),
                      (''fresh.html'', File ''<p>fresh</p>'' 13601),
                      (''fonts'', Dir)],
      outside = [],
      clock = 100000,
      trace = []\<rparr>"

text \<open>
  A cache that holds \<open>x^2\<close> and two files older than the retention window, the first of
  which cannot be removed.
\<close>

definition locked_world :: world where
  "locked_world =
     \<lparr>tmp_dir = Some [(''local_katex_cmd.txt'', File ''/usr/bin/katex'' 99000),
                      (''locked.html'', File ''<p>locked</p>'' 13599),
                      (x2_digest @ ''.html'', File ''<span>x</span>'' 90000),
                      (''older.html'', File ''<p>older</p>'' 13599)],
      outside = [(''/usr/bin/katex'', File ''#!/usr/bin/env node'' 500)],
      clock = 100000,
      trace = []\<rparr>"


section \<open>Properties\<close>

subsection \<open>Python strings\<close>

lemma split_on_not_Nil: "split_on sep s \<noteq> []"
  by (induction s) (auto split: list.splits)

lemma utf8_char_cancel:
  assumes "utf8_char c @ xs = utf8_char d @ ys"
  shows "c = d \<and> xs = ys"
proof -
  have lc: "(of_char c :: nat) < 256" and ld: "(of_char d :: nat) < 256" by simp_all
  have hi: "(192 + (of_char x :: nat) div 64) mod 256 = 192 + (of_char x :: nat) div 64" for x :: char
  proof -
    have "(of_char x :: nat) < 256" by simp
    then have "192 + (of_char x :: nat) div 64 < 256" by arith
    then show ?thesis by (rule mod_less)
  qed
  have lo: "(128 + (of_char x :: nat) mod 64) mod 256 = 128 + (of_char x :: nat) mod 64" for x :: char
  proof -
    have "128 + (of_char x :: nat) mod 64 < 256" by arith
    then show ?thesis by (rule mod_less)
  qed
  show ?thesis
  proof (cases "(of_char c :: nat) < 128")
    case c: True
    show ?thesis
    proof (cases "(of_char d :: nat) < 128")
      case True
      with c assms show ?thesis by (simp add: utf8_char_def)
    next
      case False
      with c assms have "c = char_of (192 + (of_char d :: nat) div 64)"
        by (simp add: utf8_char_def)
      then have "(of_char c :: nat) = 192 + (of_char d :: nat) div 64"
        by (simp only: of_char_of hi)
      with c show ?thesis by simp
    qed
  next
    case c: False
    show ?thesis
    proof (cases "(of_char d :: nat) < 128")
      case True
      with c assms have "d = char_of (192 + (of_char c :: nat) div 64)"
        by (simp add: utf8_char_def)
      then have "(of_char d :: nat) = 192 + (of_char c :: nat) div 64"
        by (simp only: of_char_of hi)
      with True show ?thesis by simp
    next
      case False
      with c assms have
        a: "char_of (192 + (of_char c :: nat) div 64) = (char_of (192 + (of_char d :: nat) div 64) :: char)"
        and b: "char_of (128 + (of_char c :: nat) mod 64) = (char_of (128 + (of_char d :: nat) mod 64) :: char)"
        and r: "xs = ys"
        by (simp_all add: utf8_char_def)
      from a have "(of_char c :: nat) div 64 = (of_char d :: nat) div 64"
        by (simp only: char_of_quasi_inj hi add_left_cancel)
      moreover from b have "(of_char c :: nat) mod 64 = (of_char d :: nat) mod 64"
        by (simp only: char_of_quasi_inj lo add_left_cancel)
      ultimately have "(of_char c :: nat) = of_char d"
        by (metis div_mult_mod_eq)
      with r show ?thesis by simp
    qed
  qed
qed

lemma utf8_inj: "utf8 s = utf8 t \<Longrightarrow> s = t"
proof (induction s arbitrary: t)
  case Nil
  show ?case
  proof (cases t)
    case Nil
    then show ?thesis by simp
  next
    case (Cons d ds)
    with Nil.prems show ?thesis
      by (simp add: utf8_def utf8_char_def split: if_splits)
  qed
next
  case (Cons c cs)
  show ?case
  proof (cases t)
    case Nil
    with Cons.prems show ?thesis
      by (simp add: utf8_def utf8_char_def split: if_splits)
  next
    case t: (Cons d ds)
    with Cons.prems have "utf8_char c @ utf8 cs = utf8_char d @ utf8 ds"
      by (simp add: utf8_def)
    from utf8_char_cancel [OF this] Cons.IH [of ds] t show ?thesis by simp
  qed
qed

subsection \<open>Files of the temporary directory\<close>

lemma tmp_lookup_Some: "tmp_dir w = Some es \<Longrightarrow> tmp_lookup w name = map_of es name"
  by (simp add: tmp_lookup_def)

lemma tmp_unlink_done:
  "tmp_dir w = Some es \<Longrightarrow> map_of es name = Some (File c m) \<Longrightarrow> \<not> unlink_denied e name \<Longrightarrow>
   tmp_unlink e name w = (Inr (), w\<lparr>tmp_dir := Some (AList.delete name es)\<rparr>)"
  by (simp add: tmp_unlink_def)

lemma tmp_unlink_refused:
  "tmp_dir w = Some es \<Longrightarrow> map_of es name = Some (File c m) \<Longrightarrow> unlink_denied e name \<Longrightarrow>
   tmp_unlink e name w = (Inl (OSError (PermissionDenied name)), w)"
  by (simp add: tmp_unlink_def)

lemma tmp_unlink_lookup:
  "tmp_unlink e name w = (r, w') \<Longrightarrow> tmp_lookup w' k = None \<or> tmp_lookup w' k = tmp_lookup w k"
  by (auto simp: tmp_unlink_def tmp_lookup_def delete_conv'
      split: option.splits node.splits if_splits)

lemma tmp_unlink_trace: "trace (snd (tmp_unlink e name w)) = trace w"
  by (simp add: tmp_unlink_def split: option.splits node.splits)

lemma tmp_write_frame:
  "tmp_write name data w = (r, w') \<Longrightarrow>
   trace w' = trace w \<and> clock w' = clock w \<and> outside w' = outside w"
  by (auto simp: tmp_write_def split: option.splits node.splits)

lemma tmp_mkdir_frame:
  "trace (tmp_mkdir w) = trace w \<and> clock (tmp_mkdir w) = clock w \<and>
   outside (tmp_mkdir w) = outside w"
  by (simp add: tmp_mkdir_def split: option.splits)

lemma map_of_filter_distinct:
  "distinct (map fst es) \<Longrightarrow>
   map_of (filter P es) n =
     (case map_of es n of None \<Rightarrow> None | Some nd \<Rightarrow> if P (n, nd) then Some nd else None)"
proof (induction es)
  case Nil
  show ?case by simp
next
  case (Cons x es)
  obtain k v where x: "x = (k, v)" by (cases x)
  from Cons.prems x have notin: "k \<notin> fst ` set es" and dis: "distinct (map fst es)" by auto
  from notin have none: "map_of es k = None" by (simp add: map_of_eq_None_iff)
  from notin have none': "map_of (filter P es) k = None"
    by (auto simp: map_of_eq_None_iff)
  show ?case
    using Cons.IH [OF dis] x none none' by (cases "n = k") auto
qed

lemma spawn_run:
  "run_process e argv w = (oc, w') \<Longrightarrow>
   spawn e argv w = (oc, w'\<lparr>trace := trace w @ [Spawned argv]\<rparr>)"
  by (simp add: spawn_def)


subsection \<open>The command builder\<close>

lemma iter_options_Cons:
  "iter_options ((name, v) # rest) = option_tokens (name, v) @ iter_options rest"
proof (cases v)
  case (BoolV b)
  then show ?thesis
    by (cases b) (simp_all add: option_tokens_def option_flag_def startswith_def)
qed (simp_all add: option_tokens_def option_flag_def startswith_def)

lemma iter_options_tokens: "iter_options opts = concat (map option_tokens opts)"
proof (induction opts)
  case Nil
  show ?case by simp
next
  case (Cons opt opts)
  obtain name v where "opt = (name, v)" by (cases opt)
  with Cons show ?case by (simp only: iter_options_Cons list.map concat.simps)
qed

text \<open>
  C6.  For every options map, the argument vector built is the resolved invocation prefix
  followed, for each option in iteration order, by a single \<open>--name\<close> flag when the value
  is the boolean true, by nothing when it is the boolean false, and by \<open>--name\<close> and the
  string form of the value otherwise, a name not already starting with \<open>--\<close> being
  prefixed with it.
\<close>

theorem iter_cmd_parts_builds_argv:
  assumes "get_bin_cmd e w = (Inr resolved, w')"
  shows "iter_cmd_parts e (Some opts) w = (Inr (build_argv resolved opts), w')"
  using assms by (simp add: iter_cmd_parts_def build_argv_def iter_options_tokens)

theorem iter_cmd_parts_builds_argv_witness:
  "get_bin_cmd linux_env resolved_world = (Inr [''/usr/bin/katex''], resolved_world) \<and>
   iter_cmd_parts linux_env
     (Some [(''display-mode'', BoolV True), (''no-throw-on-error'', BoolV False),
            (''max-size'', IntV 10), (''--error-color'', StrV ''#cc0000'')])
     resolved_world =
   (Inr [''/usr/bin/katex'', ''--display-mode'', ''--max-size'', ''10'',
         ''--error-color'', ''#cc0000''], resolved_world)"
proof -
  have resolved: "get_bin_cmd linux_env resolved_world = (Inr [''/usr/bin/katex''], resolved_world)"
    by code_simp
  have built:
    "build_argv [''/usr/bin/katex'']
       [(''display-mode'', BoolV True), (''no-throw-on-error'', BoolV False),
        (''max-size'', IntV 10), (''--error-color'', StrV ''#cc0000'')] =
     [''/usr/bin/katex'', ''--display-mode'', ''--max-size'', ''10'',
      ''--error-color'', ''#cc0000'']"
    by code_simp
  from iter_cmd_parts_builds_argv [OF resolved] built resolved show ?thesis
    by simp
qed

subsection \<open>Resolving the binary\<close>

lemma get_bin_cmd_persisted:
  assumes "tmp_lookup w TMP_LOCAL_CMD_CACHE = Some (File local_cmd m)"
    and "path_exists w (hd (split_on (CHR 0x0A) local_cmd))"
  shows "get_usr_parts e w = (Inr (Some (split_on (CHR 0x0A) local_cmd)), w)"
    and "get_bin_cmd e w = (Inr (split_on (CHR 0x0A) local_cmd), w)"
proof -
  obtain first others where "split_on (CHR 0x0A) local_cmd = first # others"
    using split_on_not_Nil [of "CHR 0x0A" local_cmd] by (cases "split_on (CHR 0x0A) local_cmd") auto
  with assms show usr: "get_usr_parts e w = (Inr (Some (split_on (CHR 0x0A) local_cmd)), w)"
    by (simp add: get_usr_parts_def)
  then show "get_bin_cmd e w = (Inr (split_on (CHR 0x0A) local_cmd), w)"
    by (simp add: get_bin_cmd_def)
qed

text \<open>
  C3.  If the resolution file exists and the path on its first line exists on disk, the
  resolution returns the lines of the file as they are and leaves the world as it was: no
  directory of the search path is probed and no process is run.
\<close>

theorem persisted_resolution_reused:
  assumes "tmp_lookup w TMP_LOCAL_CMD_CACHE = Some (File local_cmd m)"
    and "path_exists w (hd (split_on (CHR 0x0A) local_cmd))"
  shows "get_usr_parts e w = (Inr (Some (split_on (CHR 0x0A) local_cmd)), w) \<and>
         get_bin_cmd e w = (Inr (split_on (CHR 0x0A) local_cmd), w) \<and>
         trace (snd (get_bin_cmd e w)) = trace w"
  using get_bin_cmd_persisted [OF assms, of e] by simp

theorem persisted_resolution_reused_witness:
  "tmp_lookup resolved_world TMP_LOCAL_CMD_CACHE = Some (File ''/usr/bin/katex'' 1000) \<and>
   path_exists resolved_world ''/usr/bin/katex'' \<and>
   get_usr_parts linux_env resolved_world = (Inr (Some [''/usr/bin/katex'']), resolved_world) \<and>
   get_bin_cmd linux_env resolved_world = (Inr [''/usr/bin/katex''], resolved_world) \<and>
   trace (snd (get_bin_cmd linux_env resolved_world)) = []"
proof -
  have cached: "tmp_lookup resolved_world TMP_LOCAL_CMD_CACHE = Some (File ''/usr/bin/katex'' 1000)"
    by code_simp
  have lines: "split_on (CHR 0x0A) ''/usr/bin/katex'' = [''/usr/bin/katex'']"
    by code_simp
  have there: "path_exists resolved_world ''/usr/bin/katex''"
    by code_simp
  have empty: "trace resolved_world = []"
    by code_simp
  from persisted_resolution_reused [OF cached, of linux_env] cached lines there empty
  show ?thesis by simp
qed

subsection \<open>The sweep\<close>

lemma cleanup_loop_filter:
  assumes "tmp_dir w = Some cur" and "distinct (map fst cur)"
    and "\<forall>(n, nd) \<in> set cur. n \<in> set ns \<and> older_than mm nd \<longrightarrow> \<not> unlink_denied e n"
  shows "cleanup_loop e mm ns w =
         (Inr (), w\<lparr>tmp_dir := Some (filter (\<lambda>(n, nd). \<not> (n \<in> set ns \<and> older_than mm nd)) cur)\<rparr>)"
  using assms
proof (induction ns arbitrary: w cur)
  case Nil
  then show ?case by simp
next
  case (Cons fname rest)
  note dir = \<open>tmp_dir w = Some cur\<close> and dis = \<open>distinct (map fst cur)\<close>
  have look: "tmp_lookup w fname = map_of cur fname"
    using dir by (rule tmp_lookup_Some)
  show ?case
  proof (cases "\<exists>c m. map_of cur fname = Some (File c m) \<and> m < mm")
    case True
    then obtain c m where ent: "map_of cur fname = Some (File c m)" and old: "m < mm" by blast
    from ent have mem: "(fname, File c m) \<in> set cur" by (rule map_of_SomeD)
    with Cons.prems(3) old have allowed: "\<not> unlink_denied e fname"
      by (auto simp: older_than_def)
    let ?w' = "w\<lparr>tmp_dir := Some (AList.delete fname cur)\<rparr>"
    have step: "tmp_unlink e fname w = (Inr (), ?w')"
      using dir ent allowed by (rule tmp_unlink_done)
    have dir': "tmp_dir ?w' = Some (AList.delete fname cur)" by simp
    have dis': "distinct (map fst (AList.delete fname cur))"
      using dis by (rule distinct_delete)
    have ok': "\<forall>(n, nd) \<in> set (AList.delete fname cur).
                 n \<in> set rest \<and> older_than mm nd \<longrightarrow> \<not> unlink_denied e n"
      using Cons.prems(3) by (auto simp: AList.delete_eq)
    have pw: "(fname \<noteq> n \<and> \<not> (n \<in> set rest \<and> older_than mm nd)) =
              (\<not> (n \<in> set (fname # rest) \<and> older_than mm nd))"
      if "(n, nd) \<in> set cur" for n nd
    proof (cases "n = fname")
      case True
      with that dis ent have "nd = File c m" by simp
      with True old show ?thesis by (simp add: older_than_def)
    next
      case False
      then show ?thesis by auto
    qed
    have same: "filter (\<lambda>(n, nd). \<not> (n \<in> set rest \<and> older_than mm nd)) (AList.delete fname cur) =
                filter (\<lambda>(n, nd). \<not> (n \<in> set (fname # rest) \<and> older_than mm nd)) cur"
      unfolding AList.delete_eq filter_filter
      by (rule filter_cong [OF refl]) (use pw in auto)
    from Cons.IH [OF dir' dis' ok'] step look ent old same show ?thesis
      by simp
  next
    case False
    have skip: "cleanup_loop e mm (fname # rest) w = cleanup_loop e mm rest w"
      using False look by (auto split: option.splits node.splits)
    have ok': "\<forall>(n, nd) \<in> set cur. n \<in> set rest \<and> older_than mm nd \<longrightarrow> \<not> unlink_denied e n"
      using Cons.prems(3) by auto
    have pw: "(\<not> (n \<in> set rest \<and> older_than mm nd)) =
              (\<not> (n \<in> set (fname # rest) \<and> older_than mm nd))"
      if "(n, nd) \<in> set cur" for n nd
    proof (cases "n = fname")
      case True
      with that dis have "map_of cur fname = Some nd" by simp
      with False have "\<not> older_than mm nd" by (cases nd) (auto simp: older_than_def)
      then show ?thesis by simp
    next
      case False
      then show ?thesis by auto
    qed
    have same: "filter (\<lambda>(n, nd). \<not> (n \<in> set rest \<and> older_than mm nd)) cur =
                filter (\<lambda>(n, nd). \<not> (n \<in> set (fname # rest) \<and> older_than mm nd)) cur"
      by (rule filter_cong [OF refl]) (use pw in auto)
    from Cons.IH [OF dir dis ok'] skip same show ?thesis by simp
  qed
qed

lemma cleanup_tmp_dir_filter:
  assumes "tmp_dir w = Some es" and "distinct (map fst es)"
    and "\<forall>(n, nd) \<in> set es. older_than (clock w - 86400) nd \<longrightarrow> \<not> unlink_denied e n"
  shows "cleanup_tmp_dir e w =
         (Inr (), w\<lparr>tmp_dir := Some (filter (\<lambda>(n, nd). \<not> older_than (clock w - 86400) nd) es)\<rparr>)"
proof -
  have ok: "\<forall>(n, nd) \<in> set es.
              n \<in> set (map fst es) \<and> older_than (clock w - 86400) nd \<longrightarrow> \<not> unlink_denied e n"
    using assms(3) by auto
  have same: "filter (\<lambda>(n, nd). \<not> (n \<in> set (map fst es) \<and> older_than (clock w - 86400) nd)) es =
              filter (\<lambda>(n, nd). \<not> older_than (clock w - 86400) nd) es"
    by (rule filter_cong [OF refl]) force
  from cleanup_loop_filter [OF assms(1) assms(2) ok] assms(1) same show ?thesis
    by (simp add: cleanup_tmp_dir_def)
qed

lemma cleanup_loop_append:
  "cleanup_loop e mm (ns1 @ ns2) w =
     (case cleanup_loop e mm ns1 w of
        (Inl er, w') \<Rightarrow> (Inl er, w')
      | (Inr u, w') \<Rightarrow> cleanup_loop e mm ns2 w')"
  by (induction ns1 arbitrary: w) (auto split: option.splits node.splits prod.splits sum.splits)

lemma cleanup_tmp_dir_refused:
  assumes dir: "tmp_dir w = Some (before @ (name, File c m) # after)"
    and dis: "distinct (map fst (before @ (name, File c m) # after))"
    and old: "m < clock w - 86400"
    and refused: "unlink_denied e name"
    and ok: "\<forall>(n, nd) \<in> set before. older_than (clock w - 86400) nd \<longrightarrow> \<not> unlink_denied e n"
  shows "cleanup_tmp_dir e w =
         (Inl (OSError (PermissionDenied name)),
          w\<lparr>tmp_dir := Some (filter (\<lambda>(n, nd). \<not> older_than (clock w - 86400) nd) before @
                              (name, File c m) # after)\<rparr>)"
proof -
  let ?mm = "clock w - 86400"
  let ?es = "before @ (name, File c m) # after"
  let ?kept = "filter (\<lambda>(n, nd). \<not> older_than ?mm nd) before"
  let ?w' = "w\<lparr>tmp_dir := Some (?kept @ (name, File c m) # after)\<rparr>"
  have apart: "n \<notin> fst ` set before" if "(n, nd) \<in> set ((name, File c m) # after)" for n nd
    using that dis by (force simp: image_iff)
  have ok': "\<forall>(n, nd) \<in> set ?es.
               n \<in> set (map fst before) \<and> older_than ?mm nd \<longrightarrow> \<not> unlink_denied e n"
  proof (clarify)
    fix n nd
    assume mem: "(n, nd) \<in> set ?es" and n: "n \<in> set (map fst before)"
      and o: "older_than ?mm nd" and d: "unlink_denied e n"
    from n apart [of n nd] mem have "(n, nd) \<in> set before" by auto
    with ok o d show False by auto
  qed
  have same: "filter (\<lambda>(n, nd). \<not> (n \<in> set (map fst before) \<and> older_than ?mm nd)) ?es =
              ?kept @ (name, File c m) # after"
  proof -
    have a: "filter (\<lambda>(n, nd). \<not> (n \<in> set (map fst before) \<and> older_than ?mm nd)) before = ?kept"
      by (rule filter_cong [OF refl]) force
    have b: "filter (\<lambda>(n, nd). \<not> (n \<in> set (map fst before) \<and> older_than ?mm nd))
               ((name, File c m) # after) = (name, File c m) # after"
      unfolding filter_id_conv using apart by auto
    show ?thesis unfolding filter_append a b ..
  qed
  have first: "cleanup_loop e ?mm (map fst before) w = (Inr (), ?w')"
    using cleanup_loop_filter [OF dir dis ok'] same by simp
  have notin: "name \<notin> fst ` set ?kept"
    using apart [of name "File c m"] by auto
  have look: "tmp_lookup ?w' name = Some (File c m)"
    using notin by (simp add: tmp_lookup_def map_add_def map_of_eq_None_iff [THEN iffD2])
  have stop: "tmp_unlink e name ?w' = (Inl (OSError (PermissionDenied name)), ?w')"
    by (rule tmp_unlink_refused [where es = "?kept @ (name, File c m) # after"])
       (use look refused in \<open>simp_all add: tmp_lookup_def\<close>)
  have "cleanup_loop e ?mm (map fst ?es) w = (Inl (OSError (PermissionDenied name)), ?w')"
    using first look stop old
    by (simp add: cleanup_loop_append)
  with dir show ?thesis
    by (simp add: cleanup_tmp_dir_def)
qed

lemma cleanup_loop_lookup:
  "cleanup_loop e mm ns w = (r, w') \<Longrightarrow> tmp_lookup w' k = None \<or> tmp_lookup w' k = tmp_lookup w k"
proof (induction ns arbitrary: w)
  case Nil
  then show ?case by simp
next
  case (Cons fname rest)
  show ?case
  proof (cases "\<exists>c m. tmp_lookup w fname = Some (File c m) \<and> m < mm")
    case True
    then obtain c m where look: "tmp_lookup w fname = Some (File c m)" and old: "m < mm" by blast
    obtain r1 w1 where un: "tmp_unlink e fname w = (r1, w1)" by (cases "tmp_unlink e fname w")
    from tmp_unlink_lookup [OF un, of k]
    have one: "tmp_lookup w1 k = None \<or> tmp_lookup w1 k = tmp_lookup w k" .
    show ?thesis
    proof (cases r1)
      case (Inl er)
      with Cons.prems look old un have "w' = w1" by simp
      with one show ?thesis by simp
    next
      case (Inr u)
      with Cons.prems look old un have "cleanup_loop e mm rest w1 = (r, w')" by simp
      from Cons.IH [OF this] one show ?thesis by auto
    qed
  next
    case False
    with Cons.prems have "cleanup_loop e mm rest w = (r, w')"
      by (auto split: option.splits node.splits if_splits)
    then show ?thesis by (rule Cons.IH)
  qed
qed

lemma cleanup_tmp_dir_lookup:
  "cleanup_tmp_dir e w = (r, w') \<Longrightarrow> tmp_lookup w' k = None \<or> tmp_lookup w' k = tmp_lookup w k"
  by (auto simp: cleanup_tmp_dir_def Let_def split: option.splits dest: cleanup_loop_lookup)

lemma cleanup_loop_trace: "trace (snd (cleanup_loop e mm ns w)) = trace w"
proof (induction ns arbitrary: w)
  case Nil
  show ?case by simp
next
  case (Cons fname rest)
  show ?case
  proof (cases "\<exists>c m. tmp_lookup w fname = Some (File c m) \<and> m < mm")
    case True
    then obtain c m where look: "tmp_lookup w fname = Some (File c m)" and old: "m < mm" by blast
    obtain r1 w1 where un: "tmp_unlink e fname w = (r1, w1)" by (cases "tmp_unlink e fname w")
    from tmp_unlink_trace [of e fname w] un have t1: "trace w1 = trace w" by simp
    show ?thesis
      using look old un t1 Cons.IH [of w1] by (cases r1) simp_all
  next
    case False
    then have "cleanup_loop e mm (fname # rest) w = cleanup_loop e mm rest w"
      by (auto split: option.splits node.splits)
    with Cons.IH [of w] show ?thesis by simp
  qed
qed

lemma cleanup_tmp_dir_trace: "trace (snd (cleanup_tmp_dir e w)) = trace w"
  by (simp add: cleanup_tmp_dir_def Let_def cleanup_loop_trace split: option.splits)



subsection \<open>Rendering\<close>

lemma fold_update_digest:
  "fold (\<lambda>cmd_part hasher. hasher @ utf8 cmd_part) cmd_parts acc =
   acc @ concat (map utf8 cmd_parts)"
  by (induction cmd_parts arbitrary: acc) simp_all

lemma cmd_digest_input: "cmd_digest tex cmd_parts = sha256_hex (digest_input tex cmd_parts)"
  by (simp add: cmd_digest_def digest_input_def fold_update_digest)

lemma tex2html_finally:
  assumes "iter_cmd_parts e options w = (Inr cmd_parts, w0)"
    and "tex2html_body e cmd_parts tex (cmd_digest tex cmd_parts @ ''.html'') w0 = (r, w1)"
  shows "tex2html e tex options w =
         (case cleanup_tmp_dir e w1 of (Inl er, w2) \<Rightarrow> (Inl er, w2) | (Inr u, w2) \<Rightarrow> (r, w2))"
  using assms by (simp add: tex2html_def Let_def)



lemma tex2html_body_miss:
  assumes "tmp_lookup w0 F = None"
  shows "tex2html_body e cmd_parts tex F w0 =
         (case write_tex2html e cmd_parts tex F w0 of
            (Inl er, w1) \<Rightarrow> (Inl er, w1)
          | (Inr u, w1) \<Rightarrow>
              (case tmp_read F w1 of
                 Inl er \<Rightarrow> (Inl er, w1)
               | Inr result \<Rightarrow> (Inr (strip result), w1)))"
  using assms by (simp add: tex2html_body_def)

lemma write_tex2html_exited:
  assumes staged: "tmp_write (py_replace ''.html'' ''.tex'' F) tex (tmp_mkdir w) = (Inr (), w1)"
    and run: "run_process e
                (cmd_parts @
                 [''--input'', path_join (TMP_DIR e) (py_replace ''.html'' ''.tex'' F),
                  ''--output'', path_join (TMP_DIR e) F]) w1 = (Exited rc out err, w2)"
  shows "write_tex2html e cmd_parts tex F w =
         (if rc < 0 then
            (case map_of (SIG_NAME_BY_NUM e) (abs rc) of
               None \<Rightarrow>
                 (Inl (KeyError (abs rc)),
                  w2\<lparr>trace := trace w @
                    [Spawned (cmd_parts @
                       [''--input'', path_join (TMP_DIR e) (py_replace ''.html'' ''.tex'' F),
                        ''--output'', path_join (TMP_DIR e) F])]\<rparr>)
             | Some signame \<Rightarrow>
                 (Inl (KatexError
                    (''Error processing '' @ [CHR 0x27] @ tex @ [CHR 0x27] @ '': '' @
                     ''katex_cli process ended with '' @
                     ''code '' @ str_int rc @ '' ('' @ signame @ '')'')),
                  w2\<lparr>trace := trace w @
                    [Spawned (cmd_parts @
                       [''--input'', path_join (TMP_DIR e) (py_replace ''.html'' ''.tex'' F),
                        ''--output'', path_join (TMP_DIR e) F])]\<rparr>))
          else if rc > 0 then
            (Inl (KatexError
               (''Error processing '' @ [CHR 0x27] @ tex @ [CHR 0x27] @ '': '' @
                strip (out @ [CHR 0x0A] @ err))),
             w2\<lparr>trace := trace w @
               [Spawned (cmd_parts @
                  [''--input'', path_join (TMP_DIR e) (py_replace ''.html'' ''.tex'' F),
                   ''--output'', path_join (TMP_DIR e) F])]\<rparr>)
          else tmp_unlink e (py_replace ''.html'' ''.tex'' F)
                 (w2\<lparr>trace := trace w @
                    [Spawned (cmd_parts @
                       [''--input'', path_join (TMP_DIR e) (py_replace ''.html'' ''.tex'' F),
                        ''--output'', path_join (TMP_DIR e) F])]\<rparr>))"
proof -
  have tr: "trace w1 = trace w"
    using tmp_write_frame [OF staged] tmp_mkdir_frame [of w] by simp
  show ?thesis
    unfolding write_tex2html_def Let_def
    by (simp add: staged spawn_run [OF run] tr split: option.splits)
qed

lemma write_tex2html_trace:
  assumes staged: "tmp_write (py_replace ''.html'' ''.tex'' F) tex (tmp_mkdir w) = (Inr (), w1)"
  shows "trace (snd (write_tex2html e cmd_parts tex F w)) =
         trace w @
         [Spawned (cmd_parts @
            [''--input'', path_join (TMP_DIR e) (py_replace ''.html'' ''.tex'' F),
             ''--output'', path_join (TMP_DIR e) F])]"
proof -
  let ?argv = "cmd_parts @ [''--input'', path_join (TMP_DIR e) (py_replace ''.html'' ''.tex'' F),
                            ''--output'', path_join (TMP_DIR e) F]"
  have tr: "trace w1 = trace w"
    using tmp_write_frame [OF staged] tmp_mkdir_frame [of w] by simp
  obtain oc w2 where run: "run_process e ?argv w1 = (oc, w2)"
    by (cases "run_process e ?argv w1")
  show ?thesis
  proof (cases oc)
    case LaunchFailure
    with run staged tr show ?thesis
      by (simp add: write_tex2html_def Let_def spawn_def)
  next
    case (Exited rc out err)
    with run have run': "run_process e ?argv w1 = (Exited rc out err, w2)" by simp
    show ?thesis
      unfolding write_tex2html_exited [OF staged run']
      by (simp add: tmp_unlink_trace split: option.splits)
  qed
qed

lemma tex2html_body_miss_trace:
  assumes miss: "tmp_lookup w0 F = None"
    and staged: "tmp_write (py_replace ''.html'' ''.tex'' F) tex (tmp_mkdir w0) = (Inr (), w1)"
  shows "trace (snd (tex2html_body e cmd_parts tex F w0)) =
         trace w0 @
         [Spawned (cmd_parts @
            [''--input'', path_join (TMP_DIR e) (py_replace ''.html'' ''.tex'' F),
             ''--output'', path_join (TMP_DIR e) F])]"
proof -
  obtain r v where wr: "write_tex2html e cmd_parts tex F w0 = (r, v)"
    by (cases "write_tex2html e cmd_parts tex F w0")
  with write_tex2html_trace [OF staged, of e cmd_parts]
  have tv: "trace v =
            trace w0 @
            [Spawned (cmd_parts @
               [''--input'', path_join (TMP_DIR e) (py_replace ''.html'' ''.tex'' F),
                ''--output'', path_join (TMP_DIR e) F])]"
    by simp
  show ?thesis
    using wr tv
    by (cases r; cases "tmp_read F v") (simp_all add: tex2html_body_miss [OF miss])
qed



subsection \<open>SHA-256 on known inputs\<close>

text \<open>
  The test vector \<open>abc\<close> of FIPS 180-4, and the digest that \<open>hashlib\<close> gives for the bytes
  \<open>x^2/usr/bin/katex--display-mode\<close> of the running example.
\<close>

lemma sha256_hex_abc:
  "sha256_hex ''abc'' = ''ba7816bf8f01cfea414140de5dae2223b00361a396177a9cb410ff61f20015ad''"
  by code_simp

lemma x2_digest_eq:
  "cmd_digest ''x^2'' [''/usr/bin/katex'', ''--display-mode''] = x2_digest"
  by code_simp

subsection \<open>C5: what a sweep deletes\<close>

text \<open>
  C5, as the code has it.  A sweep of an existing cache directory in which no deletion is
  refused deletes exactly the regular files whose modification time is older than now
  minus 86400 seconds (24 hours): a regular file with modification time now - 86400 - 1 is
  gone after the sweep, one with modification time now - 86400 + 1 is still there, and a
  subdirectory is never deleted.
\<close>

theorem sweep_deletes_old_regular_files:
  assumes "tmp_dir w = Some es" and "distinct (map fst es)"
    and "\<forall>(n, nd) \<in> set es. older_than (clock w - 86400) nd \<longrightarrow> \<not> unlink_denied e n"
  shows "cleanup_tmp_dir e w =
           (Inr (), w\<lparr>tmp_dir := Some (filter (\<lambda>(n, nd). \<not> older_than (clock w - 86400) nd) es)\<rparr>) \<and>
         (\<forall>name c. (name, File c (clock w - 86400 - 1)) \<in> set es \<longrightarrow>
            tmp_lookup (snd (cleanup_tmp_dir e w)) name = None) \<and>
         (\<forall>name c. (name, File c (clock w - 86400 + 1)) \<in> set es \<longrightarrow>
            tmp_lookup (snd (cleanup_tmp_dir e w)) name = Some (File c (clock w - 86400 + 1))) \<and>
         (\<forall>name. (name, Dir) \<in> set es \<longrightarrow>
            tmp_lookup (snd (cleanup_tmp_dir e w)) name = Some Dir)"
proof -
  define w' where
    "w' = w\<lparr>tmp_dir := Some (filter (\<lambda>(n, nd). \<not> older_than (clock w - 86400) nd) es)\<rparr>"
  have swept: "cleanup_tmp_dir e w = (Inr (), w')"
    unfolding w'_def using assms by (rule cleanup_tmp_dir_filter)
  have after: "tmp_lookup w' name =
               (case map_of es name of None \<Rightarrow> None
                | Some nd \<Rightarrow> if older_than (clock w - 86400) nd then None else Some nd)" for name
    using map_of_filter_distinct
      [OF assms(2), of "\<lambda>(n, nd). \<not> older_than (clock w - 86400) nd" name]
    by (simp add: w'_def tmp_lookup_def split: option.splits)
  have ent: "map_of es name = Some nd" if "(name, nd) \<in> set es" for name nd
    using that assms(2) by simp
  have "(\<forall>name c. (name, File c (clock w - 86400 - 1)) \<in> set es \<longrightarrow> tmp_lookup w' name = None) \<and>
        (\<forall>name c. (name, File c (clock w - 86400 + 1)) \<in> set es \<longrightarrow>
           tmp_lookup w' name = Some (File c (clock w - 86400 + 1))) \<and>
        (\<forall>name. (name, Dir) \<in> set es \<longrightarrow> tmp_lookup w' name = Some Dir)"
    by (simp add: after ent older_than_def)
  with swept show ?thesis
    by (simp add: w'_def)
qed

theorem sweep_deletes_old_regular_files_witness:
  "cleanup_tmp_dir linux_env aged_world =
     (Inr (), aged_world\<lparr>tmp_dir := Some [(''edge.html'', File ''<p>edge</p>'' 13600),
                                           (''fresh.html'', File ''<p>fresh</p>'' 13601),
                                           (''fonts'', Dir)]\<rparr>) \<and>
   tmp_lookup (snd (cleanup_tmp_dir linux_env aged_world)) ''old.html'' = None \<and>
   tmp_lookup (snd (cleanup_tmp_dir linux_env aged_world)) ''fresh.html'' =
     Some (File ''<p>fresh</p>'' 13601) \<and>
   tmp_lookup (snd (cleanup_tmp_dir linux_env aged_world)) ''fonts'' = Some Dir"
proof -
  let ?es = "[(''old.html'', File ''<p>old</p>'' 13599),
              (''edge.html'', File ''<p>edge</p>'' 13600),
              (''fresh.html'', File ''<p>fresh</p>'' 13601),
              (''fonts'', Dir)]"
  have dir: "tmp_dir aged_world = Some ?es"
    by (simp add: aged_world_def)
  have dis: "distinct (map fst ?es)"
    by simp
  have ok: "\<forall>(n, nd) \<in> set ?es.
              older_than (clock aged_world - 86400) nd \<longrightarrow> \<not> unlink_denied linux_env n"
    by (simp add: linux_env_def)
  have now: "clock aged_world = 100000"
    by (simp add: aged_world_def)
  from sweep_deletes_old_regular_files [OF dir dis ok]
  have swept: "cleanup_tmp_dir linux_env aged_world =
                 (Inr (), aged_world\<lparr>tmp_dir := Some [(''edge.html'', File ''<p>edge</p>'' 13600),
                                                       (''fresh.html'', File ''<p>fresh</p>'' 13601),
                                                       (''fonts'', Dir)]\<rparr>)"
    by (simp add: now older_than_def)
  show ?thesis
    by (simp add: swept tmp_lookup_def)
qed

text \<open>
  C5 as stated fails when a deletion is refused: the sweep stops at the file it could not
  delete, and a regular file listed after it, with modification time now - 86400 - 1,
  survives the sweep.
\<close>

theorem refused_deletion_stops_sweep:
  "fst (cleanup_tmp_dir locked_env locked_world) = Inl (OSError (PermissionDenied ''locked.html'')) \<and>
   clock locked_world - 86400 - 1 = 13599 \<and>
   tmp_lookup (snd (cleanup_tmp_dir locked_env locked_world)) ''older.html'' =
     Some (File ''<p>older</p>'' 13599)"
  by code_simp

subsection \<open>C1: a cache hit\<close>




subsection \<open>C9: a deletion the sweep is refused\<close>

text \<open>
  C9, as the code has it.  A deletion that is refused during the sweep is not swallowed:
  the sweep stops at the first regular file older than the retention window that it cannot
  delete, leaving that file and every entry listed after it, and the render call raises
  the error of that deletion in place of whatever its body returned or raised.
\<close>

theorem refused_deletion_fails_render:
  assumes res: "iter_cmd_parts e options w = (Inr cmd_parts, w0)"
    and body: "tex2html_body e cmd_parts tex (cmd_digest tex cmd_parts @ ''.html'') w0 = (r, w1)"
    and dir: "tmp_dir w1 = Some (before @ (name, File c m) # after)"
    and dis: "distinct (map fst (before @ (name, File c m) # after))"
    and old: "m < clock w1 - 86400"
    and refused: "unlink_denied e name"
    and ok: "\<forall>(n, nd) \<in> set before. older_than (clock w1 - 86400) nd \<longrightarrow> \<not> unlink_denied e n"
  shows "tex2html e tex options w =
         (Inl (OSError (PermissionDenied name)),
          w1\<lparr>tmp_dir := Some (filter (\<lambda>(n, nd). \<not> older_than (clock w1 - 86400) nd) before @
                               (name, File c m) # after)\<rparr>)"
  using tex2html_finally [OF res body] cleanup_tmp_dir_refused [OF dir dis old refused ok]
  by simp

theorem refused_deletion_fails_render_witness:
  "unlink_denied locked_env ''locked.html'' \<and>
   tex2html locked_env ''x^2'' (Some display_block) locked_world =
     (Inl (OSError (PermissionDenied ''locked.html'')),
      locked_world\<lparr>tmp_dir := Some [(''local_katex_cmd.txt'', File ''/usr/bin/katex'' 99000),
                                      (''locked.html'', File ''<p>locked</p>'' 13599),
                                      (x2_digest @ ''.html'', File ''<span>x</span>'' 100000),
                                      (''older.html'', File ''<p>older</p>'' 13599)]\<rparr>)"
proof -
  let ?parts = "[''/usr/bin/katex'', ''--display-mode'']"
  let ?w1 = "locked_world\<lparr>tmp_dir := Some ([(''local_katex_cmd.txt'', File ''/usr/bin/katex'' 99000)] @
                (''locked.html'', File ''<p>locked</p>'' 13599) #
                [(x2_digest @ ''.html'', File ''<span>x</span>'' 100000),
                 (''older.html'', File ''<p>older</p>'' 13599)])\<rparr>"
  have res: "iter_cmd_parts locked_env (Some display_block) locked_world = (Inr ?parts, locked_world)"
    by code_simp
  have body: "tex2html_body locked_env ?parts ''x^2'' (cmd_digest ''x^2'' ?parts @ ''.html'')
                locked_world = (Inr ''<span>x</span>'', ?w1)"
    unfolding x2_digest_eq by code_simp
  have dir: "tmp_dir ?w1 =
             Some ([(''local_katex_cmd.txt'', File ''/usr/bin/katex'' 99000)] @
                (''locked.html'', File ''<p>locked</p>'' 13599) #
                [(x2_digest @ ''.html'', File ''<span>x</span>'' 100000),
                 (''older.html'', File ''<p>older</p>'' 13599)])"
    by simp
  have dis: "distinct (map fst ([(''local_katex_cmd.txt'', File ''/usr/bin/katex'' 99000)] @
                (''locked.html'', File ''<p>locked</p>'' 13599) #
                [(x2_digest @ ''.html'', File ''<span>x</span>'' 100000),
                 (''older.html'', File ''<p>older</p>'' 13599)]))"
    by (simp add: x2_digest_def)
  have old: "13599 < clock ?w1 - 86400"
    by (simp add: locked_world_def)
  have refused: "unlink_denied locked_env ''locked.html''"
    by (simp add: locked_env_def)
  have ok: "\<forall>(n, nd) \<in> set [(''local_katex_cmd.txt'', File ''/usr/bin/katex'' 99000)].
              older_than (clock ?w1 - 86400) nd \<longrightarrow> \<not> unlink_denied locked_env n"
    by (simp add: locked_env_def)
  from refused_deletion_fails_render [OF res body dir dis old refused ok] refused
  show ?thesis
    by (simp add: older_than_def locked_world_def)
qed

text \<open>
  C9 as stated fails: on a cache hit, with a stale file in the cache directory that cannot
  be deleted, the render call raises the error of the deletion.
\<close>

theorem refused_deletion_raises_on_cache_hit:
  "tmp_lookup locked_world (x2_digest @ ''.html'') = Some (File ''<span>x</span>'' 90000) \<and>
   fst (tex2html locked_env ''x^2'' (Some display_block) locked_world) =
     Inl (OSError (PermissionDenied ''locked.html''))"
  by code_simp

subsection \<open>C4: a renderer that fails\<close>

text \<open>
  C4, as the code has it.  When the cache misses and the renderer ends with a positive
  return code, and no deletion of the sweep is refused, the render call raises a
  \<open>KatexError\<close> whose message contains the input text and the whitespace-trimmed
  concatenation of the standard output, a newline and the standard error of the process.
  The call does not touch the cache file of the digest: afterwards that file is there
  exactly when the renderer left one that the sweep has no reason to delete.
\<close>

theorem failed_render_raises_katex_error:
  assumes res: "iter_cmd_parts e options w = (Inr cmd_parts, w0)"
    and miss: "tmp_lookup w0 (cmd_digest tex cmd_parts @ ''.html'') = None"
    and staged: "tmp_write (py_replace ''.html'' ''.tex'' (cmd_digest tex cmd_parts @ ''.html''))
                   tex (tmp_mkdir w0) = (Inr (), w1)"
    and run: "run_process e
                (cmd_parts @
                 [''--input'',
                  path_join (TMP_DIR e)
                    (py_replace ''.html'' ''.tex'' (cmd_digest tex cmd_parts @ ''.html'')),
                  ''--output'', path_join (TMP_DIR e) (cmd_digest tex cmd_parts @ ''.html'')])
                w1 = (Exited rc out err, w2)"
    and pos: "0 < rc"
    and dir: "tmp_dir w2 = Some es"
    and dis: "distinct (map fst es)"
    and ok: "\<forall>(n, nd) \<in> set es. older_than (clock w2 - 86400) nd \<longrightarrow> \<not> unlink_denied e n"
  shows "fst (tex2html e tex options w) =
           Inl (KatexError
             (''Error processing '' @ [CHR 0x27] @ tex @ [CHR 0x27] @ '': '' @
              strip (out @ [CHR 0x0A] @ err))) \<and>
         sublist tex
           (''Error processing '' @ [CHR 0x27] @ tex @ [CHR 0x27] @ '': '' @
            strip (out @ [CHR 0x0A] @ err)) \<and>
         sublist (strip (out @ [CHR 0x0A] @ err))
           (''Error processing '' @ [CHR 0x27] @ tex @ [CHR 0x27] @ '': '' @
            strip (out @ [CHR 0x0A] @ err)) \<and>
         tmp_lookup (snd (tex2html e tex options w)) (cmd_digest tex cmd_parts @ ''.html'') =
           (case map_of es (cmd_digest tex cmd_parts @ ''.html'') of
              None \<Rightarrow> None
            | Some nd \<Rightarrow> if older_than (clock w2 - 86400) nd then None else Some nd)"
proof -
  let ?F = "cmd_digest tex cmd_parts @ ''.html''"
  let ?I = "py_replace ''.html'' ''.tex'' ?F"
  let ?argv = "cmd_parts @ [''--input'', path_join (TMP_DIR e) ?I,
                            ''--output'', path_join (TMP_DIR e) ?F]"
  let ?msg = "''Error processing '' @ [CHR 0x27] @ tex @ [CHR 0x27] @ '': '' @
              strip (out @ [CHR 0x0A] @ err)"
  define v where "v = w2\<lparr>trace := trace w0 @ [Spawned ?argv]\<rparr>"
  define v' where
    "v' = v\<lparr>tmp_dir := Some (filter (\<lambda>(n, nd). \<not> older_than (clock v - 86400) nd) es)\<rparr>"
  have wr: "write_tex2html e cmd_parts tex ?F w0 = (Inl (KatexError ?msg), v)"
    using write_tex2html_exited [OF staged run] pos by (simp add: v_def)
  have body: "tex2html_body e cmd_parts tex ?F w0 = (Inl (KatexError ?msg), v)"
    using tex2html_body_miss [OF miss, of e cmd_parts tex] wr by simp
  have dirv: "tmp_dir v = Some es" using dir by (simp add: v_def)
  have okv: "\<forall>(n, nd) \<in> set es. older_than (clock v - 86400) nd \<longrightarrow> \<not> unlink_denied e n"
    using ok by (simp add: v_def)
  have sweep: "cleanup_tmp_dir e v = (Inr (), v')"
    unfolding v'_def using dirv dis okv by (rule cleanup_tmp_dir_filter)
  have call: "tex2html e tex options w = (Inl (KatexError ?msg), v')"
    using tex2html_finally [OF res body] sweep by simp
  have look: "tmp_lookup v' ?F =
              (case map_of es ?F of None \<Rightarrow> None
               | Some nd \<Rightarrow> if older_than (clock w2 - 86400) nd then None else Some nd)"
    using map_of_filter_distinct [OF dis, of "\<lambda>(n, nd). \<not> older_than (clock v - 86400) nd" ?F]
    by (simp add: v'_def v_def tmp_lookup_def split: option.splits)
  have s1: "sublist tex ?msg"
    unfolding sublist_def
    by (rule exI [of _ "''Error processing '' @ [CHR 0x27]"],
        rule exI [of _ "[CHR 0x27] @ '': '' @ strip (out @ [CHR 0x0A] @ err)"]) simp
  have s2: "sublist (strip (out @ [CHR 0x0A] @ err)) ?msg"
    unfolding sublist_def
    by (rule exI [of _ "''Error processing '' @ [CHR 0x27] @ tex @ [CHR 0x27] @ '': ''"],
        rule exI [of _ "[]"]) simp
  from call look s1 s2 show ?thesis by simp
qed

theorem failed_render_raises_katex_error_witness:
  "fst (tex2html parse_error_env ''x^2'' (Some display_block) resolved_world) =
     Inl (KatexError (''Error processing '' @ [CHR 0x27] @ ''x^2'' @ [CHR 0x27] @ '': parse error'')) \<and>
   tmp_lookup (snd (tex2html parse_error_env ''x^2'' (Some display_block) resolved_world))
     (x2_digest @ ''.html'') = None"
proof -
  let ?parts = "[''/usr/bin/katex'', ''--display-mode'']"
  let ?es = "[(''local_katex_cmd.txt'', File ''/usr/bin/katex'' 1000),
              (x2_digest @ ''.tex'', File ''x^2'' 2000)]"
  let ?w1 = "resolved_world\<lparr>tmp_dir := Some ?es\<rparr>"
  let ?w2 = "resolved_world\<lparr>tmp_dir := Some ?es, clock := 2001\<rparr>"
  have res: "iter_cmd_parts parse_error_env (Some display_block) resolved_world =
             (Inr ?parts, resolved_world)"
    by code_simp
  have miss: "tmp_lookup resolved_world (cmd_digest ''x^2'' ?parts @ ''.html'') = None"
    unfolding x2_digest_eq by code_simp
  have staged: "tmp_write (py_replace ''.html'' ''.tex'' (cmd_digest ''x^2'' ?parts @ ''.html''))
                  ''x^2'' (tmp_mkdir resolved_world) = (Inr (), ?w1)"
    unfolding x2_digest_eq by code_simp
  have run: "run_process parse_error_env
               (?parts @
                [''--input'',
                 path_join (TMP_DIR parse_error_env)
                   (py_replace ''.html'' ''.tex'' (cmd_digest ''x^2'' ?parts @ ''.html'')),
                 ''--output'',
                 path_join (TMP_DIR parse_error_env) (cmd_digest ''x^2'' ?parts @ ''.html'')])
               ?w1 = (Exited 1 [] ''parse error'', ?w2)"
    unfolding x2_digest_eq by code_simp
  have pos: "(0::int) < 1"
    by simp
  have dir: "tmp_dir ?w2 = Some ?es"
    by simp
  have dis: "distinct (map fst ?es)"
    by (simp add: x2_digest_def)
  have ok: "\<forall>(n, nd) \<in> set ?es.
              older_than (clock ?w2 - 86400) nd \<longrightarrow> \<not> unlink_denied parse_error_env n"
    by (simp add: parse_error_env_def linux_env_def)
  have trimmed: "strip ([] @ [CHR 0x0A] @ ''parse error'') = ''parse error''"
    by code_simp
  have absent: "map_of ?es (x2_digest @ ''.html'') = None"
    by (simp add: x2_digest_def)
  from failed_render_raises_katex_error [OF res miss staged run pos dir dis ok,
      unfolded trimmed x2_digest_eq] absent
  show ?thesis
    by simp
qed

text \<open>
  C4 as stated fails for a renderer that has begun to write its output when it fails: the
  file it left is the cache file of the digest after the call, and the message joins the
  two streams with a newline.
\<close>

theorem failed_render_leaves_cache_file:
  "fst (tex2html partial_output_env ''x^2'' (Some display_block) resolved_world) =
     Inl (KatexError ''Error processing 'x^2': ParseError:\<newline>bad input'') \<and>
   \<not> sublist ''ParseError:bad input'' ''Error processing 'x^2': ParseError:\<newline>bad input'' \<and>
   tmp_lookup (snd (tex2html partial_output_env ''x^2'' (Some display_block) resolved_world))
     (x2_digest @ ''.html'') = Some (File ''<span'' 2001)"
  by code_simp

subsection \<open>C8: the temporary input file\<close>

text \<open>
  Whenever the renderer ends with a return code other than 0, \<open>_write_tex2html\<close> leaves
  the input file as it was when the renderer ended.
\<close>

lemma failed_write_keeps_input_file:
  assumes staged: "tmp_write (py_replace ''.html'' ''.tex'' F) tex (tmp_mkdir w) = (Inr (), w1)"
    and run: "run_process e
                (cmd_parts @
                 [''--input'', path_join (TMP_DIR e) (py_replace ''.html'' ''.tex'' F),
                  ''--output'', path_join (TMP_DIR e) F]) w1 = (Exited rc out err, w2)"
    and failed: "rc \<noteq> 0"
  shows "tmp_lookup (snd (write_tex2html e cmd_parts tex F w)) (py_replace ''.html'' ''.tex'' F) =
         tmp_lookup w2 (py_replace ''.html'' ''.tex'' F)"
proof (cases "rc < 0")
  case True
  then show ?thesis
    unfolding write_tex2html_exited [OF staged run]
    by (simp add: tmp_lookup_def split: option.splits)
next
  case False
  with failed have "0 < rc" by simp
  with False show ?thesis
    unfolding write_tex2html_exited [OF staged run]
    by (simp add: tmp_lookup_def)
qed

text \<open>
  C8 says that a render call that misses the cache deletes the temporary input file it
  created on every outcome.  The code deletes it after the \<open>try\<close> block, which is reached
  only when the renderer ended with return code 0: after a call whose renderer failed the
  input file is still in the cache directory, after a call whose renderer succeeded it is
  gone.
\<close>

theorem failed_render_leaves_input_file:
  "fst (tex2html parse_error_env ''x^2'' (Some display_block) resolved_world) =
     Inl (KatexError ''Error processing 'x^2': parse error'') \<and>
   tmp_lookup (snd (tex2html parse_error_env ''x^2'' (Some display_block) resolved_world))
     (x2_digest @ ''.tex'') = Some (File ''x^2'' 2000) \<and>
   tmp_lookup (snd (tex2html linux_env ''x^2'' (Some display_block) resolved_world))
     (x2_digest @ ''.tex'') = None"
  by code_simp

subsection \<open>C2: the digest\<close>

text \<open>
  C2, as the code has it.  For every input text and argument vector the cache digest is
  the SHA-256, in hexadecimal, of the UTF-8 bytes of the text followed by the UTF-8 bytes
  of every token of the argument vector in order, so that the same text and the same
  argument vector give the same digest.  Changing the text changes the bytes that are
  hashed; changing the value of one option changes them exactly when it changes the
  concatenated bytes of the tokens of that option.
\<close>

theorem digest_is_sha256_of_text_and_argv:
  "cmd_digest tex cmd_parts = sha256_hex (digest_input tex cmd_parts) \<and>
   (tex \<noteq> tex' \<longrightarrow> digest_input tex cmd_parts \<noteq> digest_input tex' cmd_parts) \<and>
   ((digest_input tex (build_argv resolved (before @ (name, v) # after)) =
     digest_input tex (build_argv resolved (before @ (name, v') # after))) =
    (concat (map utf8 (option_tokens (name, v))) = concat (map utf8 (option_tokens (name, v')))))"
proof -
  have "digest_input tex cmd_parts \<noteq> digest_input tex' cmd_parts" if "tex \<noteq> tex'"
    using that utf8_inj [of tex tex'] by (auto simp: digest_input_def)
  then show ?thesis
    by (simp add: cmd_digest_input digest_input_def build_argv_def)
qed

theorem digest_is_sha256_of_text_and_argv_witness:
  "''x^2'' \<noteq> ''x^3'' \<and>
   cmd_digest ''x^2'' [''/usr/bin/katex'', ''--display-mode''] =
     sha256_hex ''x^2/usr/bin/katex--display-mode'' \<and>
   digest_input ''x^2'' [''/usr/bin/katex'', ''--display-mode''] \<noteq>
     digest_input ''x^3'' [''/usr/bin/katex'', ''--display-mode'']"
proof -
  have differ: "''x^2'' \<noteq> ''x^3''" by simp
  have bytes: "digest_input ''x^2'' [''/usr/bin/katex'', ''--display-mode''] =
               ''x^2/usr/bin/katex--display-mode''"
    by code_simp
  from digest_is_sha256_of_text_and_argv
    [of "''x^2''" "[''/usr/bin/katex'', ''--display-mode'']" "''x^3''"] differ bytes
  show ?thesis by simp
qed

text \<open>
  C2 as stated fails: the integer 5 and the string \<open>5\<close> as the value of an option give the
  same argument vector, and the boolean true and the empty string give argument vectors
  with the same bytes; the digest is the same in both cases.
\<close>

theorem option_value_change_keeps_digest:
  "IntV 5 \<noteq> StrV ''5'' \<and>
   iter_cmd_parts linux_env (Some [(''max-size'', IntV 5)]) resolved_world =
     (Inr [''/usr/bin/katex'', ''--max-size'', ''5''], resolved_world) \<and>
   iter_cmd_parts linux_env (Some [(''max-size'', StrV ''5'')]) resolved_world =
     (Inr [''/usr/bin/katex'', ''--max-size'', ''5''], resolved_world) \<and>
   cmd_digest ''x^2'' [''/usr/bin/katex'', ''--max-size'', ''5''] =
     cmd_digest ''x^2'' [''/usr/bin/katex'', ''--max-size'', ''5''] \<and>
   BoolV True \<noteq> StrV [] \<and>
   iter_cmd_parts linux_env (Some [(''strict'', BoolV True)]) resolved_world =
     (Inr [''/usr/bin/katex'', ''--strict''], resolved_world) \<and>
   iter_cmd_parts linux_env (Some [(''strict'', StrV [])]) resolved_world =
     (Inr [''/usr/bin/katex'', ''--strict'', []], resolved_world) \<and>
   cmd_digest ''x^2'' [''/usr/bin/katex'', ''--strict''] =
     cmd_digest ''x^2'' [''/usr/bin/katex'', ''--strict'', []]"
proof -
  have a: "iter_cmd_parts linux_env (Some [(''max-size'', IntV 5)]) resolved_world =
           (Inr [''/usr/bin/katex'', ''--max-size'', ''5''], resolved_world)"
    by code_simp
  have b: "iter_cmd_parts linux_env (Some [(''max-size'', StrV ''5'')]) resolved_world =
           (Inr [''/usr/bin/katex'', ''--max-size'', ''5''], resolved_world)"
    by code_simp
  have c: "iter_cmd_parts linux_env (Some [(''strict'', BoolV True)]) resolved_world =
           (Inr [''/usr/bin/katex'', ''--strict''], resolved_world)"
    by code_simp
  have d: "iter_cmd_parts linux_env (Some [(''strict'', StrV [])]) resolved_world =
           (Inr [''/usr/bin/katex'', ''--strict'', []], resolved_world)"
    by code_simp
  have bytes: "digest_input ''x^2'' [''/usr/bin/katex'', ''--strict''] =
               digest_input ''x^2'' [''/usr/bin/katex'', ''--strict'', []]"
    by code_simp
  show ?thesis
    by (simp add: a b c d cmd_digest_input bytes)
qed

subsection \<open>C10: the digest and the temporary paths\<close>

text \<open>
  C10.  The digest is taken from the argument vector before \<open>--input\<close> and \<open>--output\<close> are
  appended to it: the cache key of a render call is made of the input text, the resolved
  prefix and the option tokens only; every render call, hit or miss, works on the cache
  file named after that key, and on a cache miss the renderer is run with the argument
  vector followed by the two path arguments, which are named after the key.
\<close>

theorem digest_taken_before_paths_are_appended:
  assumes bin: "get_bin_cmd e w = (Inr resolved, w0)"
  shows "cmd_digest tex (build_argv resolved opts) = cache_key tex resolved opts \<and>
         tex2html e tex (Some opts) w =
           (case tex2html_body e (build_argv resolved opts) tex
                   (cache_key tex resolved opts @ ''.html'') w0 of
              (r, w1) \<Rightarrow>
                (case cleanup_tmp_dir e w1 of
                   (Inl er, w2) \<Rightarrow> (Inl er, w2)
                 | (Inr u, w2) \<Rightarrow> (r, w2))) \<and>
         (tmp_lookup w0 (cache_key tex resolved opts @ ''.html'') = None \<and>
          tmp_write (py_replace ''.html'' ''.tex'' (cache_key tex resolved opts @ ''.html''))
            tex (tmp_mkdir w0) = (Inr (), w1) \<longrightarrow>
          trace (snd (tex2html e tex (Some opts) w)) =
            trace w0 @
            [Spawned (build_argv resolved opts @
               [''--input'',
                path_join (TMP_DIR e)
                  (py_replace ''.html'' ''.tex'' (cache_key tex resolved opts @ ''.html'')),
                ''--output'', path_join (TMP_DIR e) (cache_key tex resolved opts @ ''.html'')])])"
proof -
  have key: "cmd_digest tex (build_argv resolved opts) = cache_key tex resolved opts"
    by (simp add: cmd_digest_input cache_key_def)
  have res: "iter_cmd_parts e (Some opts) w = (Inr (build_argv resolved opts), w0)"
    using bin by (simp add: iter_cmd_parts_def build_argv_def iter_options_tokens)
  obtain r v where body:
    "tex2html_body e (build_argv resolved opts) tex
       (cmd_digest tex (build_argv resolved opts) @ ''.html'') w0 = (r, v)"
    by (cases "tex2html_body e (build_argv resolved opts) tex
                 (cmd_digest tex (build_argv resolved opts) @ ''.html'') w0")
  have call: "tex2html e tex (Some opts) w =
              (case tex2html_body e (build_argv resolved opts) tex
                      (cache_key tex resolved opts @ ''.html'') w0 of
                 (r, w1) \<Rightarrow>
                   (case cleanup_tmp_dir e w1 of
                      (Inl er, w2) \<Rightarrow> (Inl er, w2)
                    | (Inr u, w2) \<Rightarrow> (r, w2)))"
    using tex2html_finally [OF res body] body by (simp add: key)
  have run: "trace (snd (tex2html e tex (Some opts) w)) =
             trace w0 @
             [Spawned (build_argv resolved opts @
                [''--input'',
                 path_join (TMP_DIR e)
                   (py_replace ''.html'' ''.tex'' (cache_key tex resolved opts @ ''.html'')),
                 ''--output'', path_join (TMP_DIR e) (cache_key tex resolved opts @ ''.html'')])]"
    if miss: "tmp_lookup w0 (cache_key tex resolved opts @ ''.html'') = None"
      and staged: "tmp_write (py_replace ''.html'' ''.tex'' (cache_key tex resolved opts @ ''.html''))
                     tex (tmp_mkdir w0) = (Inr (), w1)"
  proof -
    have "trace v =
          trace w0 @
          [Spawned (build_argv resolved opts @
             [''--input'',
              path_join (TMP_DIR e)
                (py_replace ''.html'' ''.tex'' (cache_key tex resolved opts @ ''.html'')),
              ''--output'', path_join (TMP_DIR e) (cache_key tex resolved opts @ ''.html'')])]"
      using tex2html_body_miss_trace [OF miss staged, of e "build_argv resolved opts"] body
      by (simp add: key)
    moreover have "trace (snd (tex2html e tex (Some opts) w)) = trace v"
      using tex2html_finally [OF res body] cleanup_tmp_dir_trace [of e v]
      by (simp split: prod.splits sum.splits)
    ultimately show ?thesis by simp
  qed
  from key call run show ?thesis by blast
qed

theorem digest_taken_before_paths_are_appended_witness:
  "get_bin_cmd linux_env resolved_world = (Inr [''/usr/bin/katex''], resolved_world) \<and>
   cache_key ''x^2'' [''/usr/bin/katex''] display_block = x2_digest \<and>
   tmp_lookup resolved_world (x2_digest @ ''.html'') = None \<and>
   trace (snd (tex2html linux_env ''x^2'' (Some display_block) resolved_world)) =
     [Spawned [''/usr/bin/katex'', ''--display-mode'',
               ''--input'', ''/tmp/mdkatex/'' @ x2_digest @ ''.tex'',
               ''--output'', ''/tmp/mdkatex/'' @ x2_digest @ ''.html'']]"
proof -
  have bin: "get_bin_cmd linux_env resolved_world = (Inr [''/usr/bin/katex''], resolved_world)"
    by code_simp
  have built: "build_argv [''/usr/bin/katex''] display_block = [''/usr/bin/katex'', ''--display-mode'']"
    by code_simp
  have key: "cache_key ''x^2'' [''/usr/bin/katex''] display_block = x2_digest"
    by (simp only: cache_key_def built cmd_digest_input [symmetric] x2_digest_eq)
  have miss: "tmp_lookup resolved_world (x2_digest @ ''.html'') = None"
    by code_simp
  have staged: "tmp_write (py_replace ''.html'' ''.tex'' (x2_digest @ ''.html''))
                  ''x^2'' (tmp_mkdir resolved_world) =
                (Inr (), resolved_world\<lparr>tmp_dir :=
                   Some [(''local_katex_cmd.txt'', File ''/usr/bin/katex'' 1000),
                         (x2_digest @ ''.tex'', File ''x^2'' 2000)]\<rparr>)"
    by code_simp
  have argv: "trace resolved_world @
              [Spawned (build_argv [''/usr/bin/katex''] display_block @
                 [''--input'',
                  path_join (TMP_DIR linux_env) (py_replace ''.html'' ''.tex'' (x2_digest @ ''.html'')),
                  ''--output'', path_join (TMP_DIR linux_env) (x2_digest @ ''.html'')])] =
              [Spawned [''/usr/bin/katex'', ''--display-mode'',
                        ''--input'', ''/tmp/mdkatex/'' @ x2_digest @ ''.tex'',
                        ''--output'', ''/tmp/mdkatex/'' @ x2_digest @ ''.html'']]"
    by code_simp
  note all = digest_taken_before_paths_are_appended [OF bin, of "''x^2''" display_block, unfolded key]
  from all [THEN conjunct2, THEN conjunct2] miss staged
  have "trace (snd (tex2html linux_env ''x^2'' (Some display_block) resolved_world)) =
        trace resolved_world @
        [Spawned (build_argv [''/usr/bin/katex''] display_block @
           [''--input'',
            path_join (TMP_DIR linux_env) (py_replace ''.html'' ''.tex'' (x2_digest @ ''.html'')),
            ''--output'', path_join (TMP_DIR linux_env) (x2_digest @ ''.html'')])]"
    by blast
  with bin key miss show ?thesis
    by (simp only: argv simp_thms)
qed

subsection \<open>C7: signals\<close>

lemma map_of_fold_update:
  assumes "\<forall>(v', k') \<in> set xs. k' = k \<longrightarrow> v' = v"
  shows "map_of (fold (\<lambda>(v, k) d. AList.update k v d) xs acc) k =
         (if k \<in> snd ` set xs then Some v else map_of acc k)"
  using assms
proof (induction xs arbitrary: acc)
  case Nil
  show ?case by simp
next
  case (Cons x xs)
  obtain v' k' where x: "x = (v', k')" by (cases x)
  from Cons.prems have rest: "\<forall>(v', k') \<in> set xs. k' = k \<longrightarrow> v' = v" by simp
  from Cons.prems x have here: "k' = k \<Longrightarrow> v' = v" by simp
  show ?case
    using Cons.IH [OF rest, of "AList.update k' v' acc"] x here
    by (auto simp: update_conv')
qed

lemma SIG_NAME_BY_NUM_unique:
  assumes mem: "(name, num) \<in> set (signal_dict e)"
    and sig: "startswith name ''SIG''" and nsig: "\<not> startswith name ''SIG_''"
    and only: "\<forall>(v, k) \<in> set (signal_dict e).
                 k = num \<and> startswith v ''SIG'' \<and> \<not> startswith v ''SIG_'' \<longrightarrow> v = name"
  shows "map_of (SIG_NAME_BY_NUM e) num = Some name"
proof -
  let ?xs = "filter (\<lambda>(v, k). startswith v ''SIG'' \<and> \<not> startswith v ''SIG_'')
               (rev (sort (signal_dict e)))"
  have "\<forall>(v', k') \<in> set ?xs. k' = num \<longrightarrow> v' = name"
    using only by auto
  from map_of_fold_update [OF this, of "[]"]
  have "map_of (SIG_NAME_BY_NUM e) num = (if num \<in> snd ` set ?xs then Some name else None)"
    by (simp add: SIG_NAME_BY_NUM_def)
  moreover have "(name, num) \<in> set ?xs"
    using mem sig nsig by simp
  then have "num \<in> snd ` set ?xs" by force
  ultimately show ?thesis by simp
qed

text \<open>
  C7, as the code has it.  On a platform whose signal table gives the number 15 to
  \<open>SIGTERM\<close> and to no other signal name, the lookup built from the table maps 15 to
  \<open>SIGTERM\<close>; and a renderer ended by a signal whose number the lookup resolves makes
  \<open>_write_tex2html\<close> raise a \<open>KatexError\<close> whose message names the signal as the lookup
  resolves it.
\<close>

theorem signal_named_in_error:
  assumes sigterm: "(''SIGTERM'', 15) \<in> set (signal_dict e)"
    and only: "\<forall>(v, k) \<in> set (signal_dict e).
                 k = 15 \<and> startswith v ''SIG'' \<and> \<not> startswith v ''SIG_'' \<longrightarrow> v = ''SIGTERM''"
    and staged: "tmp_write (py_replace ''.html'' ''.tex'' F) tex (tmp_mkdir w) = (Inr (), w1)"
    and run: "run_process e
                (cmd_parts @
                 [''--input'', path_join (TMP_DIR e) (py_replace ''.html'' ''.tex'' F),
                  ''--output'', path_join (TMP_DIR e) F]) w1 = (Exited rc out err, w2)"
    and neg: "rc < 0"
    and named: "map_of (SIG_NAME_BY_NUM e) (abs rc) = Some signame"
  shows "map_of (SIG_NAME_BY_NUM e) 15 = Some ''SIGTERM'' \<and>
         fst (write_tex2html e cmd_parts tex F w) =
           Inl (KatexError
             (''Error processing '' @ [CHR 0x27] @ tex @ [CHR 0x27] @ '': '' @
              ''katex_cli process ended with '' @
              ''code '' @ str_int rc @ '' ('' @ signame @ '')'')) \<and>
         sublist signame
           (''Error processing '' @ [CHR 0x27] @ tex @ [CHR 0x27] @ '': '' @
            ''katex_cli process ended with '' @
            ''code '' @ str_int rc @ '' ('' @ signame @ '')'')"
proof -
  have a: "startswith ''SIGTERM'' ''SIG''" and b: "\<not> startswith ''SIGTERM'' ''SIG_''"
    by (simp_all add: startswith_def)
  have look: "map_of (SIG_NAME_BY_NUM e) 15 = Some ''SIGTERM''"
    using sigterm a b only by (rule SIG_NAME_BY_NUM_unique)
  have err: "fst (write_tex2html e cmd_parts tex F w) =
             Inl (KatexError
               (''Error processing '' @ [CHR 0x27] @ tex @ [CHR 0x27] @ '': '' @
                ''katex_cli process ended with '' @
                ''code '' @ str_int rc @ '' ('' @ signame @ '')''))"
    using write_tex2html_exited [OF staged run] neg named by simp
  have sub: "sublist signame
           (''Error processing '' @ [CHR 0x27] @ tex @ [CHR 0x27] @ '': '' @
            ''katex_cli process ended with '' @
            ''code '' @ str_int rc @ '' ('' @ signame @ '')'')"
    unfolding sublist_def
    by (rule exI [of _ "''Error processing '' @ [CHR 0x27] @ tex @ [CHR 0x27] @ '': '' @
                        ''katex_cli process ended with '' @ ''code '' @ str_int rc @ '' (''"],
        rule exI [of _ "'')''"]) simp
  from look err sub show ?thesis by simp
qed

theorem signal_named_in_error_witness:
  "map_of (SIG_NAME_BY_NUM sigterm_env) 15 = Some ''SIGTERM'' \<and>
   fst (write_tex2html sigterm_env [''/usr/bin/katex'', ''--display-mode''] ''x^2''
          (x2_digest @ ''.html'') resolved_world) =
     Inl (KatexError ''Error processing 'x^2': katex_cli process ended with code -15 (SIGTERM)'')"
proof -
  let ?parts = "[''/usr/bin/katex'', ''--display-mode'']"
  let ?es = "[(''local_katex_cmd.txt'', File ''/usr/bin/katex'' 1000),
              (x2_digest @ ''.tex'', File ''x^2'' 2000)]"
  let ?w1 = "resolved_world\<lparr>tmp_dir := Some ?es\<rparr>"
  let ?w2 = "resolved_world\<lparr>tmp_dir := Some ?es, clock := 2001\<rparr>"
  have sigterm: "(''SIGTERM'', 15) \<in> set (signal_dict sigterm_env)"
    by code_simp
  have only: "\<forall>(v, k) \<in> set (signal_dict sigterm_env).
                k = 15 \<and> startswith v ''SIG'' \<and> \<not> startswith v ''SIG_'' \<longrightarrow> v = ''SIGTERM''"
    by code_simp
  have staged: "tmp_write (py_replace ''.html'' ''.tex'' (x2_digest @ ''.html''))
                  ''x^2'' (tmp_mkdir resolved_world) = (Inr (), ?w1)"
    by code_simp
  have run: "run_process sigterm_env
               (?parts @
                [''--input'',
                 path_join (TMP_DIR sigterm_env) (py_replace ''.html'' ''.tex'' (x2_digest @ ''.html'')),
                 ''--output'', path_join (TMP_DIR sigterm_env) (x2_digest @ ''.html'')])
               ?w1 = (Exited (- 15) [] [], ?w2)"
    by code_simp
  have neg: "- 15 < (0::int)"
    by simp
  have named: "map_of (SIG_NAME_BY_NUM sigterm_env) (abs (- 15)) = Some ''SIGTERM''"
    by code_simp
  have code: "str_int (- 15) = ''-15''"
    by code_simp
  from signal_named_in_error [OF sigterm only staged run neg named, unfolded code]
  show ?thesis by simp
qed

text \<open>
  C7 as stated fails for a signal that has no name in the table, such as the real-time
  signal 40 of Linux: the lookup raises \<open>KeyError\<close>, and that is the error of the render
  call.
\<close>

theorem unnamed_signal_raises_key_error:
  "module_loads sigrt_env \<and>
   map_of (SIG_NAME_BY_NUM sigrt_env) 40 = None \<and>
   fst (tex2html sigrt_env ''x^2'' (Some display_block) resolved_world) = Inl (KeyError 40)"
  by code_simp

end
